theory Spec2Isabelle
  imports Complex_Main "HOL-Library.AList"
begin

section \<open>The Gemma finetuning notebook, as a sequential program\<close>

text \<open>
  The source is one Jupyter notebook, \<^verbatim>\<open>01_sft_gemma_finetuning_on_vertex.ipynb\<close>.
  Its code cells are embedded one by one, in the order of the notebook, and a run is
  the cells executed top to bottom, stopping at the first cell that raises.

  Python strings are \<^typ>\<open>string\<close>; a character stands for a code point below 256.
  Python integers are \<^typ>\<open>int\<close>. The notebook never computes with its float
  parameters, it only passes them on and formats them, so a float is the real number
  of its literal and its formatting is a parameter of the environment.

  Everything outside the Python process is explicit: each shell line and each call
  into the SDK is recorded in the order it is made, and what it prints, whether it
  raises and what the clock shows are given by an environment. What a cell prints to
  the screen is not modelled.
\<close>

subsection \<open>Python's built-in string operations\<close>

text \<open>\<^verbatim>\<open>s.startswith(p)\<close>\<close>

fun startswith :: "string \<Rightarrow> string \<Rightarrow> bool" where
  "startswith s [] = True"
| "startswith [] (p # ps) = False"
| "startswith (c # cs) (p # ps) = (c = p \<and> startswith cs ps)"

text \<open>\<^verbatim>\<open>sub in s\<close> on strings: \<open>sub\<close> occurs in \<open>s\<close> as a contiguous run.\<close>

fun py_in :: "string \<Rightarrow> string \<Rightarrow> bool" where
  "py_in sub [] = (sub = [])"
| "py_in sub (c # cs) = (startswith (c # cs) sub \<or> py_in sub cs)"

text \<open>Truthiness of a string, and of a variable that is \<^verbatim>\<open>None\<close> or a string.\<close>

definition truthy :: "string \<Rightarrow> bool" where
  "truthy s = (s \<noteq> [])"

definition truthy_opt :: "string option \<Rightarrow> bool" where
  "truthy_opt v = (case v of None \<Rightarrow> False | Some s \<Rightarrow> truthy s)"

subsection \<open>Exceptions\<close>

text \<open>
  \<open>AssertionError\<close> and \<open>ValueError\<close> carry their message. \<open>IndexError\<close> is an
  index out of range. \<open>NameError\<close> is a read of a global that no cell has assigned.
  \<open>PlatformError\<close> is whatever a call into the SDK raises.
\<close>

datatype error =
    AssertionError string
  | ValueError string
  | IndexError
  | NameError string
  | PlatformError string

definition py_assert :: "bool \<Rightarrow> string \<Rightarrow> error + unit" where
  "py_assert b msg = (if b then Inr () else Inl (AssertionError msg))"

subsection \<open>The Finetune cell: preconditions on model, accelerator and precision\<close>

text \<open>
  \<^verbatim>\<open>
  if "7b" in MODEL_ID:
      assert (ACCELERATOR_TYPE != "NVIDIA_TESLA_V100"), "Finetuning Gemma 7B models ..."
      if ACCELERATOR_TYPE == "NVIDIA_L4":
          assert (finetuning_precision_mode == "4bit"), f"{finetuning_precision_mode} ..."
  \<close>
\<close>

definition msg_7b_v100 :: string where
  "msg_7b_v100 =
     ''Finetuning Gemma 7B models is not supported on NVIDIA_TESLA_V100. Try a GPU with more VRAM.''"

definition msg_7b_l4 :: "string \<Rightarrow> string" where
  "msg_7b_l4 finetuning_precision_mode =
     finetuning_precision_mode @
     '' finetuning of Gemma 7B models is not supported on NVIDIA_L4. Try a GPU with more VRAM or use a different precision mode.''"

definition check_7b :: "string \<Rightarrow> string \<Rightarrow> string \<Rightarrow> error + unit" where
  "check_7b MODEL_ID ACCELERATOR_TYPE finetuning_precision_mode =
     (if py_in ''7b'' MODEL_ID then
        (case py_assert (ACCELERATOR_TYPE \<noteq> ''NVIDIA_TESLA_V100'') msg_7b_v100 of
           Inl e \<Rightarrow> Inl e
         | Inr _ \<Rightarrow>
             if ACCELERATOR_TYPE = ''NVIDIA_L4''
             then py_assert (finetuning_precision_mode = ''4bit'')
                    (msg_7b_l4 finetuning_precision_mode)
             else Inr ())
      else Inr ())"

text \<open>
  \<^verbatim>\<open>
  machine_type = None
  if ACCELERATOR_TYPE == "NVIDIA_TESLA_V100": machine_type = "n1-standard-8"
  elif ACCELERATOR_TYPE == "NVIDIA_L4":       machine_type = "g2-standard-12"
  elif ACCELERATOR_TYPE == "NVIDIA_TESLA_A100": machine_type = "a2-highgpu-1g"
  \<close>
\<close>

definition select_machine_type :: "string \<Rightarrow> string option" where
  "select_machine_type ACCELERATOR_TYPE =
     (if ACCELERATOR_TYPE = ''NVIDIA_TESLA_V100'' then Some ''n1-standard-8''
      else if ACCELERATOR_TYPE = ''NVIDIA_L4'' then Some ''g2-standard-12''
      else if ACCELERATOR_TYPE = ''NVIDIA_TESLA_A100'' then Some ''a2-highgpu-1g''
      else None)"

definition msg_machine_type :: "string \<Rightarrow> string" where
  "msg_machine_type ACCELERATOR_TYPE =
     ''Cannot automatically determine machine type from '' @ ACCELERATOR_TYPE @ ''.''"

text \<open>
  The three assertions in the order of the cell. The result is the machine type the
  rest of the cell passes to \<^verbatim>\<open>train_job.run\<close>.
\<close>

definition finetune_preconditions :: "string \<Rightarrow> string \<Rightarrow> string \<Rightarrow> error + string" where
  "finetune_preconditions MODEL_ID ACCELERATOR_TYPE finetuning_precision_mode =
     (case check_7b MODEL_ID ACCELERATOR_TYPE finetuning_precision_mode of
        Inl e \<Rightarrow> Inl e
      | Inr _ \<Rightarrow>
          (let machine_type = select_machine_type ACCELERATOR_TYPE in
           case machine_type of
             None \<Rightarrow> Inl (AssertionError (msg_machine_type ACCELERATOR_TYPE))
           | Some m \<Rightarrow>
               if truthy m then Inr m
               else Inl (AssertionError (msg_machine_type ACCELERATOR_TYPE))))"

subsection \<open>More of Python's strings\<close>

text \<open>
  \<^verbatim>\<open>c.isspace()\<close> for a code point below 256: tab to carriage return, the four
  separators 28 to 31, the space, NEL (133) and the no-break space (160).
\<close>

definition isspace :: "char \<Rightarrow> bool" where
  "isspace c =
     (let n = (of_char c :: nat)
      in (9 \<le> n \<and> n \<le> 13) \<or> (28 \<le> n \<and> n \<le> 32) \<or> n = 133 \<or> n = 160)"

text \<open>\<^verbatim>\<open>s.strip()\<close> removes leading and trailing whitespace.\<close>

definition strip :: "string \<Rightarrow> string" where
  "strip s = rev (dropWhile isspace (rev (dropWhile isspace s)))"

text \<open>
  \<^verbatim>\<open>s.lower()\<close> for code points below 256: A to Z, and the Latin-1 capitals 192 to
  222 except the multiplication sign 215, move up by 32.
\<close>

definition lower_char :: "char \<Rightarrow> char" where
  "lower_char c =
     (let n = (of_char c :: nat)
      in if (65 \<le> n \<and> n \<le> 90) \<or> (192 \<le> n \<and> n \<le> 222 \<and> n \<noteq> 215)
         then char_of (n + 32) else c)"

definition lower :: "string \<Rightarrow> string" where
  "lower s = map lower_char s"

text \<open>\<^verbatim>\<open>s.split(sep)\<close> for a separator of one character: never the empty list.\<close>

fun py_split :: "char \<Rightarrow> string \<Rightarrow> string list" where
  "py_split sep [] = [[]]"
| "py_split sep (c # cs) =
     (if c = sep then [] # py_split sep cs
      else (case py_split sep cs of
              [] \<Rightarrow> [[c]]
            | w # ws \<Rightarrow> (c # w) # ws))"

text \<open>\<^verbatim>\<open>sep.join(parts)\<close>\<close>

fun py_join :: "string \<Rightarrow> string list \<Rightarrow> string" where
  "py_join sep [] = []"
| "py_join sep [x] = x"
| "py_join sep (x # y # ys) = x @ sep @ py_join sep (y # ys)"

text \<open>\<^verbatim>\<open>s.replace(old, new)\<close> for \<open>old\<close> of one character.\<close>

definition py_replace :: "char \<Rightarrow> string \<Rightarrow> string \<Rightarrow> string" where
  "py_replace old new s = concat (map (\<lambda>c. if c = old then new else [c]) s)"

text \<open>\<^verbatim>\<open>xs[i]\<close>: a negative index counts from the end, out of range raises.\<close>

definition py_index :: "'a list \<Rightarrow> int \<Rightarrow> error + 'a" where
  "py_index xs i =
     (if 0 \<le> i \<and> i < int (length xs) then Inr (xs ! nat i)
      else if i < 0 \<and> - int (length xs) \<le> i then Inr (xs ! nat (int (length xs) + i))
      else Inl IndexError)"

text \<open>\<^verbatim>\<open>os.path.join(a, b)\<close> of \<^verbatim>\<open>posixpath\<close>, for two parts.\<close>

definition endswith_sep :: "string \<Rightarrow> bool" where
  "endswith_sep a = (a \<noteq> [] \<and> last a = CHR ''/'')"

definition os_path_join :: "string \<Rightarrow> string \<Rightarrow> string" where
  "os_path_join a b =
     (if startswith b ''/'' then b
      else if a = [] \<or> endswith_sep a then a @ b
      else a @ ''/'' @ b)"

text \<open>\<^verbatim>\<open>str(n)\<close> of an integer, as an f-string formats it.\<close>

definition digit :: "nat \<Rightarrow> char" where
  "digit n = ''0123456789'' ! n"

fun str_nat :: "nat \<Rightarrow> string" where
  "str_nat n = (if n < 10 then [digit n] else str_nat (n div 10) @ [digit (n mod 10)])"

declare str_nat.simps [simp del]

definition str_int :: "int \<Rightarrow> string" where
  "str_int i = (if i < 0 then CHR ''-'' # str_nat (nat (- i)) else str_nat (nat i))"

subsection \<open>The clock: \<^verbatim>\<open>datetime.now().strftime(format)\<close>\<close>

record datetime =
  year :: nat
  month :: nat
  day :: nat
  hour :: nat
  minute :: nat
  second :: nat

definition zfill :: "nat \<Rightarrow> string \<Rightarrow> string" where
  "zfill width s = replicate (width - length s) (CHR ''0'') @ s"

text \<open>
  The directives of the library reference: \<^verbatim>\<open>%Y\<close> the year with century, and
  \<^verbatim>\<open>%m %d %H %M %S\<close> zero-padded to two digits. Another character after
  \<^verbatim>\<open>%\<close> is kept as it is; the notebook uses none.
\<close>

definition directive :: "char \<Rightarrow> datetime \<Rightarrow> string" where
  "directive c d =
     (if c = CHR ''Y'' then zfill 4 (str_nat (year d))
      else if c = CHR ''m'' then zfill 2 (str_nat (month d))
      else if c = CHR ''d'' then zfill 2 (str_nat (day d))
      else if c = CHR ''H'' then zfill 2 (str_nat (hour d))
      else if c = CHR ''M'' then zfill 2 (str_nat (minute d))
      else if c = CHR ''S'' then zfill 2 (str_nat (second d))
      else if c = CHR ''%'' then ''%''
      else [CHR ''%'', c])"

fun strftime :: "string \<Rightarrow> datetime \<Rightarrow> string" where
  "strftime [] d = []"
| "strftime [c] d = [c]"
| "strftime (c # x # rest) d =
     (if c = CHR ''%'' then directive x d @ strftime rest d
      else c # strftime (x # rest) d)"

declare strftime.simps [simp del]

text \<open>
  The format the specification names, written out digit by digit, to compare with
  what \<open>strftime\<close> computes.
\<close>

definition two_digits :: "nat \<Rightarrow> string" where
  "two_digits n = [digit (n div 10), digit (n mod 10)]"

definition four_digits :: "nat \<Rightarrow> string" where
  "four_digits n =
     [digit (n div 1000), digit (n div 100 mod 10), digit (n div 10 mod 10), digit (n mod 10)]"

definition YYYYMMDD_HHMMSS :: "datetime \<Rightarrow> string" where
  "YYYYMMDD_HHMMSS d =
     four_digits (year d) @ two_digits (month d) @ two_digits (day d) @ ''_'' @
     two_digits (hour d) @ two_digits (minute d) @ two_digits (second d)"

text \<open>
  The format of the bucket cell, \<^verbatim>\<open>"%Y%m%d%H%M%S"\<close>, written out in the same way.
\<close>

definition YYYYMMDDHHMMSS :: "datetime \<Rightarrow> string" where
  "YYYYMMDDHHMMSS d =
     four_digits (year d) @ two_digits (month d) @ two_digits (day d) @
     two_digits (hour d) @ two_digits (minute d) @ two_digits (second d)"

text \<open>
  A reading of the wall clock: a \<^verbatim>\<open>datetime\<close> with a year of four digits.
\<close>

definition clock_reading :: "datetime \<Rightarrow> bool" where
  "clock_reading d =
     (1000 \<le> year d \<and> year d \<le> 9999 \<and> 1 \<le> month d \<and> month d \<le> 12 \<and>
      1 \<le> day d \<and> day d \<le> 31 \<and> hour d \<le> 23 \<and> minute d \<le> 59 \<and> second d \<le> 59)"

subsection \<open>The world outside the notebook\<close>

text \<open>
  A value handed to the platform inside a dictionary: a string, an integer, a float
  or a boolean.
\<close>

datatype pyval = PyStr string | PyInt int | PyFloat real | PyBool bool

text \<open>
  Every statement of the notebook that leaves the Python process, with the arguments
  the notebook passes. A resource handle (training job, model, endpoint) is the display
  name it was created with.
  \<^item> \<open>Shell\<close>: a \<^verbatim>\<open>!\<close> line, the command after the variables are filled in;
  \<^item> \<open>Aiplatform_init\<close>: project, location, staging_bucket;
  \<^item> \<open>Endpoint_create\<close>: display_name;
  \<^item> \<open>Model_upload\<close>: display_name, serving_container_image_uri,
    serving_container_command, serving_container_args, serving_container_ports,
    serving_container_predict_route, serving_container_health_route,
    serving_container_environment_variables, serving_container_shared_memory_size_mb,
    serving_container_deployment_timeout;
  \<^item> \<open>Model_deploy\<close>: the model, endpoint, machine_type, accelerator_type,
    accelerator_count, deploy_request_timeout, service_account;
  \<^item> \<open>CustomContainerTrainingJob\<close>: display_name, container_uri;
  \<^item> \<open>TrainJob_run\<close>: the job, args, environment_variables, replica_count,
    machine_type, accelerator_type, accelerator_count, boot_disk_size_gb,
    service_account;
  \<^item> \<open>Endpoint_get\<close>: \<^verbatim>\<open>aiplatform.Endpoint(name)\<close>;
  \<^item> \<open>Endpoint_predict\<close>: the endpoint, instances;
  \<^item> \<open>TrainJob_delete\<close>, \<open>Model_delete\<close>: the handle;
  \<^item> \<open>Endpoint_delete\<close>: the endpoint, force.
\<close>

datatype call =
    Shell string
  | Aiplatform_init string string string
  | Endpoint_create string
  | Model_upload string string "string list" "string list" "int list" string string
      "(string \<times> string) list" int int
  | Model_deploy string string string string int int string
  | CustomContainerTrainingJob string string
  | TrainJob_run string "string list" "(string \<times> pyval) list" int string string int int
      string
  | Endpoint_get string
  | Endpoint_predict string "(string \<times> pyval) list list"
  | TrainJob_delete string
  | Endpoint_delete string bool
  | Model_delete string

text \<open>
  The state outside: the calls made so far, oldest first, how often the clock was
  read, and what the platform holds (training jobs, endpoints, models, and which model
  is deployed on which endpoint).
\<close>

record world =
  calls :: "call list"
  ticks :: nat
  platform_jobs :: "string list"
  platform_endpoints :: "string list"
  platform_models :: "string list"
  platform_deployed :: "(string \<times> string) list"

text \<open>
  What the notebook cannot decide: what the clock shows at its n-th reading, what a
  shell command prints, whether an SDK call raises (both may depend on all earlier
  calls), and how Python prints a float.
\<close>

record env =
  clock :: "nat \<Rightarrow> datetime"
  shell_output :: "call list \<Rightarrow> string \<Rightarrow> string list"
  sdk_raises :: "call list \<Rightarrow> call \<Rightarrow> error option"
  str_float :: "real \<Rightarrow> string"

text \<open>
  What an SDK call that returns leaves on the platform. A call that raises leaves
  nothing.
\<close>

fun platform_effect :: "call \<Rightarrow> world \<Rightarrow> world" where
  "platform_effect (Endpoint_create n) w =
     w\<lparr>platform_endpoints := platform_endpoints w @ [n]\<rparr>"
| "platform_effect (Model_upload n img cmd args ports pr hr ev shm tmo) w =
     w\<lparr>platform_models := platform_models w @ [n]\<rparr>"
| "platform_effect (Model_deploy m e machine accel cnt tmo sa) w =
     w\<lparr>platform_deployed := platform_deployed w @ [(m, e)]\<rparr>"
| "platform_effect (TrainJob_run j args ev rc machine accel cnt disk sa) w =
     w\<lparr>platform_jobs := platform_jobs w @ [j]\<rparr>"
| "platform_effect (TrainJob_delete j) w =
     w\<lparr>platform_jobs := removeAll j (platform_jobs w)\<rparr>"
| "platform_effect (Endpoint_delete e force) w =
     w\<lparr>platform_endpoints := removeAll e (platform_endpoints w),
       platform_deployed :=
         (if force then filter (\<lambda>me. snd me \<noteq> e) (platform_deployed w)
          else platform_deployed w)\<rparr>"
| "platform_effect (Model_delete m) w =
     w\<lparr>platform_models := removeAll m (platform_models w)\<rparr>"
| "platform_effect (Shell c) w = w"
| "platform_effect (Aiplatform_init pr loc sb) w = w"
| "platform_effect (CustomContainerTrainingJob n uri) w = w"
| "platform_effect (Endpoint_get n) w = w"
| "platform_effect (Endpoint_predict e instances) w = w"

subsection \<open>Statements: a state transformer that returns or raises\<close>

type_synonym 'a prog = "world \<Rightarrow> (error + 'a) \<times> world"

definition returns :: "'a \<Rightarrow> 'a prog" where
  "returns x = (\<lambda>w. (Inr x, w))"

definition raises :: "error \<Rightarrow> 'a prog" where
  "raises e = (\<lambda>w. (Inl e, w))"

text \<open>One statement after the other: a raise skips everything that follows.\<close>

definition andthen :: "'a prog \<Rightarrow> ('a \<Rightarrow> 'b prog) \<Rightarrow> 'b prog" where
  "andthen m f = (\<lambda>w. case m w of (Inl e, w') \<Rightarrow> (Inl e, w') | (Inr x, w') \<Rightarrow> f x w')"

text \<open>A computation inside Python, which touches nothing outside.\<close>

definition lift :: "error + 'a \<Rightarrow> 'a prog" where
  "lift r = (\<lambda>w. (r, w))"

text \<open>A call into the SDK: it is recorded, then raises or takes effect.\<close>

definition sdk :: "env \<Rightarrow> call \<Rightarrow> unit prog" where
  "sdk env c =
     (\<lambda>w. case sdk_raises env (calls w) c of
            Some e \<Rightarrow> (Inl e, w\<lparr>calls := calls w @ [c]\<rparr>)
          | None \<Rightarrow> (Inr (), platform_effect c (w\<lparr>calls := calls w @ [c]\<rparr>)))"

text \<open>
  An IPython \<^verbatim>\<open>!\<close> line: it is recorded and gives the lines the command printed. A
  command that fails raises nothing.
\<close>

definition shell :: "env \<Rightarrow> string \<Rightarrow> string list prog" where
  "shell env cmd =
     (\<lambda>w. (Inr (shell_output env (calls w) cmd), w\<lparr>calls := calls w @ [Shell cmd]\<rparr>))"

text \<open>\<^verbatim>\<open>datetime.now()\<close>\<close>

definition datetime_now :: "env \<Rightarrow> datetime prog" where
  "datetime_now env = (\<lambda>w. (Inr (clock env (ticks w)), w\<lparr>ticks := Suc (ticks w)\<rparr>))"

text \<open>\<^verbatim>\<open>for x in xs: body(x)\<close>\<close>

fun for_each :: "'a list \<Rightarrow> ('a \<Rightarrow> unit prog) \<Rightarrow> unit prog" where
  "for_each [] body = returns ()"
| "for_each (x # xs) body = andthen (body x) (\<lambda>_. for_each xs body)"

subsection \<open>The helper methods\<close>

definition TRAIN_DOCKER_URI :: string where
  "TRAIN_DOCKER_URI =
     ''us-docker.pkg.dev/vertex-ai/vertex-vision-model-garden-dockers/pytorch-peft-train:20240220_0936_RC01''"

definition VLLM_DOCKER_URI :: string where
  "VLLM_DOCKER_URI =
     ''us-docker.pkg.dev/vertex-ai/vertex-vision-model-garden-dockers/pytorch-vllm-serve:20240220_0936_RC01''"

definition vllm_args :: "env \<Rightarrow> string \<Rightarrow> int \<Rightarrow> real \<Rightarrow> int \<Rightarrow> string \<Rightarrow> string list" where
  "vllm_args env model_id accelerator_count gpu_memory_utilization max_model_len dtype =
     [''--host=0.0.0.0'',
      ''--port=7080'',
      ''--model='' @ model_id,
      ''--tensor-parallel-size='' @ str_int accelerator_count,
      ''--swap-space=16'',
      ''--gpu-memory-utilization='' @ str_float env gpu_memory_utilization,
      ''--max-model-len='' @ str_int max_model_len,
      ''--dtype='' @ dtype,
      ''--disable-log-stats'']"

text \<open>
  \<^verbatim>\<open>
  env_vars = {"MODEL_ID": base_model_id, "DEPLOY_SOURCE": "notebook"}
  try:
      if HF_TOKEN: env_vars["HF_TOKEN"] = HF_TOKEN
  except: pass
  \<close>
  \<open>HF_TOKEN\<close> is a global: \<open>None\<close> when no cell has assigned it, and then the
  \<open>NameError\<close> is swallowed.
\<close>

definition serving_env_vars :: "string option \<Rightarrow> string \<Rightarrow> (string \<times> string) list" where
  "serving_env_vars HF_TOKEN base_model_id =
     (let env_vars = [(''MODEL_ID'', base_model_id), (''DEPLOY_SOURCE'', ''notebook'')]
      in case HF_TOKEN of
           None \<Rightarrow> env_vars
         | Some token \<Rightarrow>
             if truthy token then AList.update ''HF_TOKEN'' token env_vars else env_vars)"

text \<open>
  \<^verbatim>\<open>
  aiplatform.Model.upload(
      display_name=model_name,
      serving_container_image_uri=VLLM_DOCKER_URI,
      serving_container_command=["python", "-m", "vllm.entrypoints.api_server"],
      serving_container_args=vllm_args,
      serving_container_ports=[7080],
      serving_container_predict_route="/generate",
      serving_container_health_route="/ping",
      serving_container_environment_variables=env_vars,
      serving_container_shared_memory_size_mb=(16 * 1024),
      serving_container_deployment_timeout=7200)
  \<close>
\<close>

definition upload_request :: "string \<Rightarrow> string list \<Rightarrow> (string \<times> string) list \<Rightarrow> call" where
  "upload_request model_name args env_vars =
     Model_upload model_name VLLM_DOCKER_URI
       [''python'', ''-m'', ''vllm.entrypoints.api_server''] args [7080]
       ''/generate'' ''/ping'' env_vars (16 * 1024) 7200"

text \<open>
  \<^verbatim>\<open>deploy_model_vllm\<close>. The arguments after the global \<open>HF_TOKEN\<close> are the
  parameters of the Python function, in its order. The result is the pair
  \<^verbatim>\<open>(model, endpoint)\<close>.
\<close>

definition deploy_model_vllm ::
  "env \<Rightarrow> string option \<Rightarrow> string \<Rightarrow> string \<Rightarrow> string \<Rightarrow> string option \<Rightarrow> string \<Rightarrow> string \<Rightarrow>
   int \<Rightarrow> real \<Rightarrow> int \<Rightarrow> string \<Rightarrow> (string \<times> string) prog" where
  "deploy_model_vllm env HF_TOKEN model_name model_id service_account base_model_id
     machine_type accelerator_type accelerator_count gpu_memory_utilization max_model_len dtype =
     (let endpoint = model_name @ ''-endpoint'' in
      andthen (sdk env (Endpoint_create endpoint)) (\<lambda>_.
      let base = (if \<not> truthy_opt base_model_id then model_id
                  else (case base_model_id of None \<Rightarrow> model_id | Some b \<Rightarrow> b));
          args = vllm_args env model_id accelerator_count gpu_memory_utilization
                   max_model_len dtype;
          env_vars = serving_env_vars HF_TOKEN base;
          model = model_name
      in
      andthen (sdk env (upload_request model_name args env_vars)) (\<lambda>_.
      andthen (sdk env (Model_deploy model endpoint machine_type accelerator_type
                 accelerator_count 1800 service_account)) (\<lambda>_.
      returns (model, endpoint)))))"

text \<open>
  \<^verbatim>\<open>return prefix + datetime.now().strftime("_%Y%m%d_%H%M%S")\<close>
\<close>

definition get_job_name_with_datetime :: "env \<Rightarrow> string \<Rightarrow> string prog" where
  "get_job_name_with_datetime env prefix =
     andthen (datetime_now env) (\<lambda>d. returns (prefix @ strftime ''_%Y%m%d_%H%M%S'' d))"

subsection \<open>The form fields\<close>

text \<open>
  Every value the notebook marks \<^verbatim>\<open>@param\<close>, under the name of its variable. The
  four fields of the Deploy cell carry the prefix \<open>deploy_\<close>: the Finetune cell has
  variables of the same names.
\<close>

record params =
  PROJECT_ID :: string
  REGION :: string
  BUCKET_URI :: "string option"
  HF_TOKEN :: string
  dataset_name :: string
  instruct_column_in_dataset :: string
  MODEL_ID :: string
  ACCELERATOR_TYPE :: string
  per_device_train_batch_size :: int
  max_steps :: int
  finetuning_precision_mode :: string
  learning_rate :: real
  lora_rank :: int
  lora_alpha :: int
  lora_dropout :: real
  deploy_machine_type :: string
  deploy_accelerator_type :: string
  deploy_accelerator_count :: int
  deploy_max_model_len :: int
  ENDPOINT_NAME :: string
  prompt :: string
  max_tokens :: int
  temperature :: real
  top_p :: real
  top_k :: int
  delete_bucket :: bool

subsection \<open>Setting up the project\<close>

text \<open>
  The \<^verbatim>\<open>!\<close> lines of the notebook, with their variables filled in:
  \<^verbatim>\<open>
  ! gcloud config set project $PROJECT_ID
  ! gcloud services enable aiplatform.googleapis.com compute.googleapis.com
  ! gsutil mb -l {REGION} {BUCKET_URI}
  ! gsutil ls -Lb {BUCKET_NAME} | grep "Location constraint:" | sed "s/Location constraint://"
  ! gcloud projects describe $PROJECT_ID
  ! gsutil iam ch serviceAccount:{SERVICE_ACCOUNT}:roles/storage.admin $BUCKET_NAME
  ! gsutil -m rm -r $BUCKET_URI
  \<close>
\<close>

definition project_command :: "string \<Rightarrow> string" where
  "project_command project = ''gcloud config set project '' @ project"

definition enable_apis_command :: string where
  "enable_apis_command =
     ''gcloud services enable aiplatform.googleapis.com compute.googleapis.com''"

definition make_bucket_command :: "string \<Rightarrow> string \<Rightarrow> string" where
  "make_bucket_command region uri = ''gsutil mb -l '' @ region @ '' '' @ uri"

definition ls_location_command :: "string \<Rightarrow> string" where
  "ls_location_command name =
     ''gsutil ls -Lb '' @ name @ '' | grep '' @ [CHR 0x22] @ ''Location constraint:'' @
     [CHR 0x22] @ '' | sed '' @ [CHR 0x22] @ ''s/Location constraint://'' @ [CHR 0x22]"

definition describe_command :: "string \<Rightarrow> string" where
  "describe_command project = ''gcloud projects describe '' @ project"

definition iam_command :: "string \<Rightarrow> string \<Rightarrow> string" where
  "iam_command service_account name =
     ''gsutil iam ch serviceAccount:'' @ service_account @ '':roles/storage.admin '' @ name"

definition remove_bucket_command :: "string \<Rightarrow> string" where
  "remove_bucket_command uri = ''gsutil -m rm -r '' @ uri"

definition project_cell :: "env \<Rightarrow> params \<Rightarrow> unit prog" where
  "project_cell env p =
     andthen (shell env (project_command (PROJECT_ID p))) (\<lambda>_. returns ())"

definition enable_apis_cell :: "env \<Rightarrow> unit prog" where
  "enable_apis_cell env =
     andthen (shell env enable_apis_command) (\<lambda>_. returns ())"

text \<open>
  The bucket cell.
  \<^verbatim>\<open>BUCKET_NAME = "/".join(BUCKET_URI.split("/")[:3])\<close>
\<close>

definition bucket_name :: "string \<Rightarrow> string" where
  "bucket_name uri = py_join ''/'' (take 3 (py_split (CHR ''/'') uri))"

text \<open>
  \<^verbatim>\<open>
  BUCKET_URI = f"gs://{PROJECT_ID}-tmp-{now}"
  ! gsutil mb -l {REGION} {BUCKET_URI}
  \<close>
\<close>

definition fresh_bucket_uri :: "string \<Rightarrow> string \<Rightarrow> string" where
  "fresh_bucket_uri project now = ''gs://'' @ project @ ''-tmp-'' @ now"

definition create_bucket :: "env \<Rightarrow> params \<Rightarrow> string \<Rightarrow> string prog" where
  "create_bucket env p now =
     (let uri = fresh_bucket_uri (PROJECT_ID p) now in
      andthen (shell env (make_bucket_command (REGION p) uri)) (\<lambda>_. returns uri))"

definition msg_bucket_uri :: string where
  "msg_bucket_uri = ''BUCKET_URI must start with '' @ [CHR 0x60] @ ''gs://'' @ [CHR 0x60] @ ''.''"

definition msg_bucket_region :: "string \<Rightarrow> string \<Rightarrow> string" where
  "msg_bucket_region bucket_region region =
     ''Bucket region '' @ bucket_region @ '' is different from notebook region '' @ region"

text \<open>
  The \<^verbatim>\<open>else\<close> branch:
  \<^verbatim>\<open>
  assert BUCKET_URI.startswith("gs://"), "BUCKET_URI must start with `gs://`."
  BUCKET_NAME = "/".join(BUCKET_URI.split("/")[:3])
  shell_output = ! gsutil ls -Lb {BUCKET_NAME} | grep "Location constraint:" | sed ...
  bucket_region = shell_output[0].strip().lower()
  if bucket_region != REGION:
      raise ValueError("Bucket region %s is different from notebook region %s" % ...)
  \<close>
\<close>

definition check_bucket :: "env \<Rightarrow> params \<Rightarrow> string \<Rightarrow> string prog" where
  "check_bucket env p uri =
     andthen (lift (py_assert (startswith uri ''gs://'') msg_bucket_uri)) (\<lambda>_.
     andthen (shell env (ls_location_command (bucket_name uri))) (\<lambda>shell_output.
     andthen (lift (py_index shell_output 0)) (\<lambda>line.
     let bucket_region = lower (strip line) in
     if bucket_region \<noteq> REGION p
     then raises (ValueError (msg_bucket_region bucket_region (REGION p)))
     else returns uri)))"

text \<open>
  \<^verbatim>\<open>if BUCKET_URI is None or BUCKET_URI.strip() == "" or BUCKET_URI == "gs://":\<close>
\<close>

definition bucket_unset :: "string option \<Rightarrow> bool" where
  "bucket_unset b = (case b of None \<Rightarrow> True | Some u \<Rightarrow> strip u = [] \<or> u = ''gs://'')"

text \<open>
  \<^verbatim>\<open>SERVICE_ACCOUNT = f"{project_number}-compute@developer.gserviceaccount.com"\<close>
\<close>

definition compute_service_account :: "string \<Rightarrow> string" where
  "compute_service_account project_number =
     project_number @ ''-compute@developer.gserviceaccount.com''"

text \<open>
  The whole cell. It gives the three globals later cells read: \<^verbatim>\<open>BUCKET_URI\<close>,
  \<^verbatim>\<open>STAGING_BUCKET\<close> and \<^verbatim>\<open>SERVICE_ACCOUNT\<close>.
\<close>

definition bucket_cell :: "env \<Rightarrow> params \<Rightarrow> (string \<times> string \<times> string) prog" where
  "bucket_cell env p =
     andthen (datetime_now env) (\<lambda>d.
     let now = strftime ''%Y%m%d%H%M%S'' d in
     andthen
       (case BUCKET_URI p of
          None \<Rightarrow> create_bucket env p now
        | Some u \<Rightarrow>
            if strip u = [] \<or> u = ''gs://'' then create_bucket env p now
            else check_bucket env p u) (\<lambda>bucket_uri.
     let STAGING_BUCKET = os_path_join bucket_uri ''temporal'';
         MODEL_BUCKET = os_path_join bucket_uri ''gemma''
     in
     andthen (shell env (describe_command (PROJECT_ID p))) (\<lambda>shell_output.
     andthen (lift (py_index shell_output (- 1))) (\<lambda>last_line.
     andthen (lift (py_index (py_split (CHR '':'') last_line) 1)) (\<lambda>field.
     let project_number = py_replace (CHR 0x27) [] (strip field);
         SERVICE_ACCOUNT = compute_service_account project_number;
         BUCKET_NAME = bucket_name bucket_uri
     in
     andthen (shell env (iam_command SERVICE_ACCOUNT BUCKET_NAME)) (\<lambda>_.
     returns (bucket_uri, STAGING_BUCKET, SERVICE_ACCOUNT)))))))"

text \<open>
  The cell that initialises the SDK:
  \<^verbatim>\<open>
  models, endpoints = {}, {}
  aiplatform.init(project=PROJECT_ID, location=REGION, staging_bucket=STAGING_BUCKET)
  assert (HF_TOKEN), "Please provide a read HF_TOKEN ..."
  \<close>
  It gives the two dictionaries.
\<close>

definition msg_hf_token :: string where
  "msg_hf_token =
     ''Please provide a read HF_TOKEN to load models from Hugging Face, or select a different model source.''"

definition setup_cell ::
  "env \<Rightarrow> params \<Rightarrow> string \<Rightarrow> ((string \<times> string) list \<times> (string \<times> string) list) prog" where
  "setup_cell env p STAGING_BUCKET =
     (let models = []; endpoints = [] in
      andthen (sdk env (Aiplatform_init (PROJECT_ID p) (REGION p) STAGING_BUCKET)) (\<lambda>_.
      andthen (lift (py_assert (truthy (HF_TOKEN p)) msg_hf_token)) (\<lambda>_.
      returns (models, endpoints))))"

subsection \<open>Finetune\<close>

text \<open>The \<^verbatim>\<open>args\<close> of \<^verbatim>\<open>train_job.run\<close>, each an f-string.\<close>

definition train_args :: "env \<Rightarrow> params \<Rightarrow> string \<Rightarrow> string \<Rightarrow> string \<Rightarrow> string \<Rightarrow> string list" where
  "train_args env p base_model_id lora_output_dir merged_model_output_dir template =
     [''--task=instruct-lora'',
      ''--pretrained_model_id='' @ base_model_id,
      ''--dataset_name='' @ dataset_name p,
      ''--instruct_column_in_dataset='' @ instruct_column_in_dataset p,
      ''--output_dir='' @ lora_output_dir,
      ''--merge_base_and_lora_output_dir='' @ merged_model_output_dir,
      ''--per_device_train_batch_size='' @ str_int (per_device_train_batch_size p),
      ''--lora_rank='' @ str_int (lora_rank p),
      ''--lora_alpha='' @ str_int (lora_alpha p),
      ''--lora_dropout='' @ str_float env (lora_dropout p),
      ''--max_steps='' @ str_int (max_steps p),
      ''--max_seq_length=512'',
      ''--learning_rate='' @ str_float env (learning_rate p),
      ''--precision_mode='' @ finetuning_precision_mode p,
      ''--template='' @ template,
      ''--huggingface_access_token='' @ HF_TOKEN p]"

text \<open>
  \<^verbatim>\<open>
  train_job.run(args=[...], environment_variables={"WANDB_DISABLED": True},
      replica_count=replica_count, machine_type=machine_type,
      accelerator_type=ACCELERATOR_TYPE, accelerator_count=accelerator_count,
      boot_disk_size_gb=500, service_account=SERVICE_ACCOUNT)
  \<close>
\<close>

definition run_request ::
  "string \<Rightarrow> string list \<Rightarrow> int \<Rightarrow> string \<Rightarrow> string \<Rightarrow> int \<Rightarrow> string \<Rightarrow> call" where
  "run_request train_job args replica_count machine_type accelerator_type accelerator_count
     service_account =
     TrainJob_run train_job args [(''WANDB_DISABLED'', PyBool True)] replica_count
       machine_type accelerator_type accelerator_count 500 service_account"

text \<open>
  The Finetune cell: the assertions, then the three names, the job object and
  \<^verbatim>\<open>train_job.run\<close>. It gives \<^verbatim>\<open>train_job\<close> and
  \<^verbatim>\<open>merged_model_output_dir\<close>.
\<close>

definition finetune_cell :: "env \<Rightarrow> params \<Rightarrow> string \<Rightarrow> string \<Rightarrow> (string \<times> string) prog" where
  "finetune_cell env p STAGING_BUCKET SERVICE_ACCOUNT =
     (let base_model_path_prefix = ''google/'';
          base_model_id = os_path_join base_model_path_prefix (MODEL_ID p);
          template = [];
          accelerator_count = 1
      in
      andthen (lift (finetune_preconditions (MODEL_ID p) (ACCELERATOR_TYPE p)
                 (finetuning_precision_mode p))) (\<lambda>machine_type.
      let replica_count = 1 in
      andthen (get_job_name_with_datetime env ''gemma-lora-train'') (\<lambda>job_name.
      andthen (sdk env (CustomContainerTrainingJob job_name TRAIN_DOCKER_URI)) (\<lambda>_.
      let train_job = job_name in
      andthen (get_job_name_with_datetime env ''gemma-lora-adapter'') (\<lambda>lora_adapter_dir.
      let lora_output_dir = os_path_join STAGING_BUCKET lora_adapter_dir in
      andthen (get_job_name_with_datetime env ''gemma-merged-model'') (\<lambda>merged_model_dir.
      let merged_model_output_dir = os_path_join STAGING_BUCKET merged_model_dir in
      andthen (sdk env (run_request train_job
                 (train_args env p base_model_id lora_output_dir merged_model_output_dir
                    template)
                 replica_count machine_type (ACCELERATOR_TYPE p) accelerator_count
                 SERVICE_ACCOUNT)) (\<lambda>_.
      returns (train_job, merged_model_output_dir))))))))"

subsection \<open>Deploy, Predict, Clean up\<close>

text \<open>
  \<^verbatim>\<open>
  model, endpoint = deploy_model_vllm(
      model_name=get_job_name_with_datetime(prefix="gemma-vllm-serve"),
      base_model_id=f"{base_model_path_prefix}{MODEL_ID}",
      model_id=merged_model_output_dir, service_account=SERVICE_ACCOUNT,
      machine_type=machine_type, accelerator_type=accelerator_type,
      accelerator_count=accelerator_count, max_model_len=max_model_len)
  \<close>
  \<^verbatim>\<open>gpu_memory_utilization\<close> and \<^verbatim>\<open>dtype\<close> take their defaults, 0.9 and "auto".
\<close>

definition deploy_cell :: "env \<Rightarrow> params \<Rightarrow> string \<Rightarrow> string \<Rightarrow> (string \<times> string) prog" where
  "deploy_cell env p merged_model_output_dir SERVICE_ACCOUNT =
     andthen (get_job_name_with_datetime env ''gemma-vllm-serve'') (\<lambda>model_name.
     deploy_model_vllm env (Some (HF_TOKEN p)) model_name merged_model_output_dir
       SERVICE_ACCOUNT (Some (''google/'' @ MODEL_ID p)) (deploy_machine_type p)
       (deploy_accelerator_type p) (deploy_accelerator_count p) (9 / 10)
       (deploy_max_model_len p) ''auto'')"

text \<open>
  \<^verbatim>\<open>
  if ENDPOINT_NAME:
      aip_endpoint_name = f"projects/{PROJECT_ID}/locations/{REGION}/endpoints/{ENDPOINT_NAME}"
      endpoint = aiplatform.Endpoint(aip_endpoint_name)
  instances = [{"prompt": f"### Human: {prompt}### Assistant: ", "max_tokens": max_tokens,
                "temperature": temperature, "top_p": top_p, "top_k": top_k}]
  response = endpoint.predict(instances=instances)
  \<close>
  A dictionary literal is the list of its items, in the order written.
\<close>

definition predict_instances :: "params \<Rightarrow> (string \<times> pyval) list list" where
  "predict_instances p =
     [[(''prompt'', PyStr (''### Human: '' @ prompt p @ ''### Assistant: '')),
       (''max_tokens'', PyInt (max_tokens p)),
       (''temperature'', PyFloat (temperature p)),
       (''top_p'', PyFloat (top_p p)),
       (''top_k'', PyInt (top_k p))]]"

definition aip_endpoint_name :: "params \<Rightarrow> string" where
  "aip_endpoint_name p =
     ''projects/'' @ PROJECT_ID p @ ''/locations/'' @ REGION p @ ''/endpoints/'' @
     ENDPOINT_NAME p"

definition predict_cell :: "env \<Rightarrow> params \<Rightarrow> string \<Rightarrow> unit prog" where
  "predict_cell env p endpoint =
     andthen
       (if truthy (ENDPOINT_NAME p)
        then andthen (sdk env (Endpoint_get (aip_endpoint_name p)))
               (\<lambda>_. returns (aip_endpoint_name p))
        else returns endpoint) (\<lambda>endpoint.
     let instances = predict_instances p in
     sdk env (Endpoint_predict endpoint instances))"

text \<open>
  \<^verbatim>\<open>
  train_job.delete()
  for endpoint in endpoints.values(): endpoint.delete(force=True)
  for model in models.values(): model.delete()
  if delete_bucket: ! gsutil -m rm -r $BUCKET_URI
  \<close>
  \<open>endpoints\<close> and \<open>models\<close> are the two dictionaries, as lists of items.
\<close>

definition cleanup_cell ::
  "env \<Rightarrow> params \<Rightarrow> string \<Rightarrow> (string \<times> string) list \<Rightarrow> (string \<times> string) list \<Rightarrow> string \<Rightarrow>
   unit prog" where
  "cleanup_cell env p train_job endpoints models bucket_uri =
     andthen (sdk env (TrainJob_delete train_job)) (\<lambda>_.
     andthen (for_each (map snd endpoints)
                (\<lambda>endpoint. sdk env (Endpoint_delete endpoint True))) (\<lambda>_.
     andthen (for_each (map snd models) (\<lambda>model. sdk env (Model_delete model))) (\<lambda>_.
     if delete_bucket p
     then andthen (shell env (remove_bucket_command bucket_uri)) (\<lambda>_. returns ())
     else returns ())))"

subsection \<open>The notebook, run from the top\<close>

text \<open>
  The cells in the order of the notebook. Each global a cell assigns is handed to the
  cells that read it. The two dictionaries of the setup cell reach the clean-up as the
  setup cell made them: no cell in between assigns to them or stores into them, and the
  Deploy cell binds its result to the two names \<^verbatim>\<open>model\<close> and \<^verbatim>\<open>endpoint\<close>.
\<close>

definition notebook :: "env \<Rightarrow> params \<Rightarrow> unit prog" where
  "notebook env p =
     andthen (project_cell env p) (\<lambda>_.
     andthen (enable_apis_cell env) (\<lambda>_.
     andthen (bucket_cell env p) (\<lambda>(bucket_uri, STAGING_BUCKET, SERVICE_ACCOUNT).
     andthen (setup_cell env p STAGING_BUCKET) (\<lambda>(models, endpoints).
     andthen (finetune_cell env p STAGING_BUCKET SERVICE_ACCOUNT)
       (\<lambda>(train_job, merged_model_output_dir).
     andthen (deploy_cell env p merged_model_output_dir SERVICE_ACCOUNT) (\<lambda>(model, endpoint).
     andthen (predict_cell env p endpoint) (\<lambda>_.
     cleanup_cell env p train_job endpoints models bucket_uri)))))))"

text \<open>Before the run: nothing called, the clock unread, nothing on the platform.\<close>

definition world0 :: world where
  "world0 = \<lparr>calls = [], ticks = 0, platform_jobs = [], platform_endpoints = [],
             platform_models = [], platform_deployed = []\<rparr>"

subsection \<open>Kinds of calls\<close>

fun is_shell :: "call \<Rightarrow> bool" where
  "is_shell (Shell cmd) = True"
| "is_shell _ = False"

text \<open>Creating the training job object, and submitting it.\<close>

fun is_training_call :: "call \<Rightarrow> bool" where
  "is_training_call (CustomContainerTrainingJob n uri) = True"
| "is_training_call (TrainJob_run j args ev rc machine accel cnt disk sa) = True"
| "is_training_call _ = False"

fun is_upload :: "call \<Rightarrow> bool" where
  "is_upload (Model_upload n img cmd args ports pr hr ev shm tmo) = True"
| "is_upload _ = False"

fun is_deploy :: "call \<Rightarrow> bool" where
  "is_deploy (Model_deploy m e machine accel cnt tmo sa) = True"
| "is_deploy _ = False"

text \<open>\<^verbatim>\<open>train_job.run\<close>\<close>

fun is_run :: "call \<Rightarrow> bool" where
  "is_run (TrainJob_run j args ev rc machine accel cnt disk sa) = True"
| "is_run _ = False"

text \<open>The three calls of \<^verbatim>\<open>deploy_model_vllm\<close>.\<close>

fun is_deployment_call :: "call \<Rightarrow> bool" where
  "is_deployment_call (Endpoint_create n) = True"
| "is_deployment_call c = (is_upload c \<or> is_deploy c)"

fun is_predict_call :: "call \<Rightarrow> bool" where
  "is_predict_call (Endpoint_predict e instances) = True"
| "is_predict_call _ = False"

fun is_endpoint_delete :: "call \<Rightarrow> bool" where
  "is_endpoint_delete (Endpoint_delete e force) = True"
| "is_endpoint_delete _ = False"

fun is_model_delete :: "call \<Rightarrow> bool" where
  "is_model_delete (Model_delete m) = True"
| "is_model_delete _ = False"

text \<open>\<^verbatim>\<open>gsutil mb\<close> makes a bucket.\<close>

fun is_make_bucket :: "call \<Rightarrow> bool" where
  "is_make_bucket (Shell cmd) = startswith cmd ''gsutil mb''"
| "is_make_bucket _ = False"

text \<open>
  A call carries the token when it is a \<^verbatim>\<open>train_job.run\<close> with the argument
  \<^verbatim>\<open>--huggingface_access_token=<token>\<close>, or a \<^verbatim>\<open>Model.upload\<close> whose environment
  variables map \<^verbatim>\<open>HF_TOKEN\<close> to the token; a call of another kind has nowhere to carry it.
\<close>

fun carries_token :: "string \<Rightarrow> call \<Rightarrow> bool" where
  "carries_token token (TrainJob_run j args ev rc machine accel cnt disk sa) =
     List.member args (''--huggingface_access_token='' @ token)"
| "carries_token token (Model_upload n img cmd args ports pr hr ev shm tmo) =
     (map_of ev ''HF_TOKEN'' = Some token)"
| "carries_token token _ = True"

text \<open>The calls made between an earlier and a later state of the world.\<close>

definition new_calls :: "world \<Rightarrow> world \<Rightarrow> call list" where
  "new_calls w w' = drop (length (calls w)) (calls w')"

text \<open>
  A statement makes only calls of a kind: from any world, it appends calls of that
  kind to the record and nothing else. It fails making only calls of a kind when, in
  addition, it always raises.
\<close>

definition makes_only :: "(call \<Rightarrow> bool) \<Rightarrow> 'a prog \<Rightarrow> bool" where
  "makes_only Q m = (\<forall>w. \<exists>new. calls (snd (m w)) = calls w @ new \<and> list_all Q new)"

definition fails_making_only :: "(call \<Rightarrow> bool) \<Rightarrow> 'a prog \<Rightarrow> bool" where
  "fails_making_only Q m =
     (\<forall>w. \<exists>e w' new. m w = (Inl e, w') \<and> calls w' = calls w @ new \<and> list_all Q new)"

text \<open>
  A statement must make a call of a kind: whenever it returns, it has appended to the
  record of calls, and among the calls appended one is of that kind.
\<close>

definition must_call :: "(call \<Rightarrow> bool) \<Rightarrow> 'a prog \<Rightarrow> bool" where
  "must_call Q m =
     (\<forall>w r w'. m w = (Inr r, w') \<longrightarrow> (\<exists>new. calls w' = calls w @ new \<and> (\<exists>c \<in> set new. Q c)))"

subsection \<open>A run to try things on\<close>

text \<open>The form as the notebook ships it. The token field is empty.\<close>

definition notebook_defaults :: params where
  "notebook_defaults =
     \<lparr>PROJECT_ID = ''crafty-progress-421108'',
      REGION = ''europe-west4'',
      BUCKET_URI = Some ''gs://'',
      HF_TOKEN = [],
      dataset_name = ''timdettmers/openassistant-guanaco'',
      instruct_column_in_dataset = ''text'',
      MODEL_ID = ''gemma-2b'',
      ACCELERATOR_TYPE = ''NVIDIA_TESLA_V100'',
      per_device_train_batch_size = 1,
      max_steps = 10,
      finetuning_precision_mode = ''4bit'',
      learning_rate = 2 / 10000,
      lora_rank = 4,
      lora_alpha = 64,
      lora_dropout = 1 / 10,
      deploy_machine_type = ''g2-standard-12'',
      deploy_accelerator_type = ''NVIDIA_L4'',
      deploy_accelerator_count = 1,
      deploy_max_model_len = 2048,
      ENDPOINT_NAME = [],
      prompt = ''How would the Future of AI in 10 Years look?'',
      max_tokens = 128,
      temperature = 1,
      top_p = 9 / 10,
      top_k = 1,
      delete_bucket = False\<rparr>"

text \<open>
  A platform on which everything works: the clock shows 17 May 2024, 09:30 and one
  second more at each reading, \<^verbatim>\<open>gcloud projects describe\<close> ends with the project
  number, \<^verbatim>\<open>gsutil ls -Lb\<close> reports the location in capitals, no SDK call raises.
\<close>

definition sample_clock :: "nat \<Rightarrow> datetime" where
  "sample_clock n =
     \<lparr>year = 2024, month = 5, day = 17, hour = 9, minute = 30, second = n mod 60\<rparr>"

definition sample_shell_output :: "call list \<Rightarrow> string \<Rightarrow> string list" where
  "sample_shell_output history cmd =
     (if startswith cmd ''gcloud projects describe''
      then [''projectId: crafty-progress-421108'',
            ''projectNumber: '' @ [CHR 0x27] @ ''123456789012'' @ [CHR 0x27]]
      else if startswith cmd ''gsutil ls'' then [''  EUROPE-WEST4'']
      else [])"

definition sample_str_float :: "real \<Rightarrow> string" where
  "sample_str_float x =
     (if x = 2 / 10000 then ''0.0002''
      else if x = 1 / 10 then ''0.1''
      else if x = 9 / 10 then ''0.9''
      else ''1.0'')"

definition sample_env :: env where
  "sample_env =
     \<lparr>clock = sample_clock,
      shell_output = sample_shell_output,
      sdk_raises = (\<lambda>history c. None),
      str_float = sample_str_float\<rparr>"

text \<open>The same platform, except that \<^verbatim>\<open>Model.upload\<close> raises.\<close>

definition upload_fails_env :: env where
  "upload_fails_env =
     sample_env\<lparr>sdk_raises :=
       (\<lambda>history c. if is_upload c then Some (PlatformError ''upload refused'') else None)\<rparr>"

text \<open>The form of the sample run: as shipped, with a token.\<close>

definition sample_params :: params where
  "sample_params = notebook_defaults\<lparr>HF_TOKEN := ''hf_read_token''\<rparr>"

text \<open>The name \<^verbatim>\<open>get_job_name_with_datetime\<close> gives at the n-th reading of that clock.\<close>

definition sample_name :: "string \<Rightarrow> nat \<Rightarrow> string" where
  "sample_name prefix n = prefix @ strftime ''_%Y%m%d_%H%M%S'' (sample_clock n)"

text \<open>The same platform, except that every bucket is reported in another region.\<close>

definition other_region_env :: env where
  "other_region_env = sample_env\<lparr>shell_output := (\<lambda>history cmd. [''  US-CENTRAL1''])\<rparr>"

section \<open>Properties\<close>

subsection \<open>Substrings\<close>

text \<open>
  The two tests compute what their names say: a prefix, and an occurrence anywhere in
  the string.
\<close>

lemma startswith_iff: "startswith s p \<longleftrightarrow> (\<exists>post. s = p @ post)"
  by (induction s p rule: startswith.induct) auto

lemma py_in_iff: "py_in sub s \<longleftrightarrow> (\<exists>pre post. s = pre @ sub @ post)"
proof (induction s)
  case Nil
  then show ?case by auto
next
  case (Cons c cs)
  show ?case
  proof
    assume "py_in sub (c # cs)"
    then consider "startswith (c # cs) sub" | "py_in sub cs" by auto
    then show "\<exists>pre post. c # cs = pre @ sub @ post"
    proof cases
      case 1
      then obtain post where "c # cs = sub @ post" by (auto simp: startswith_iff)
      then have "c # cs = [] @ sub @ post" by simp
      then show ?thesis by blast
    next
      case 2
      with Cons.IH obtain pre post where "cs = pre @ sub @ post" by auto
      then have "c # cs = (c # pre) @ sub @ post" by simp
      then show ?thesis by blast
    qed
  next
    assume "\<exists>pre post. c # cs = pre @ sub @ post"
    then obtain pre post where eq: "c # cs = pre @ sub @ post" by blast
    show "py_in sub (c # cs)"
    proof (cases pre)
      case Nil
      with eq have "startswith (c # cs) sub" by (auto simp: startswith_iff)
      then show ?thesis by simp
    next
      case (Cons a pre')
      with eq have "cs = pre' @ sub @ post" by simp
      with Cons.IH have "py_in sub cs" by blast
      then show ?thesis by simp
    qed
  qed
qed

subsection \<open>Statements\<close>

lemma andthen_returns [simp]: "andthen (returns x) f = f x"
  by (simp add: andthen_def returns_def)

lemma andthen_raises [simp]: "andthen (raises e) f = raises e"
  by (simp add: andthen_def raises_def)

lemma andthen_lift_Inr [simp]: "andthen (lift (Inr x)) f = f x"
  by (simp add: andthen_def lift_def)

lemma andthen_lift_Inl [simp]: "andthen (lift (Inl e)) f = raises e"
  by (simp add: andthen_def lift_def raises_def)

subsection \<open>Formatting the clock\<close>

lemma digit_0 [simp]: "digit 0 = CHR ''0''"
  by (simp add: digit_def)

lemma str_nat_small: "n < 10 \<Longrightarrow> str_nat n = [digit n]"
  by (simp add: str_nat.simps)

lemma str_nat_step: "10 \<le> n \<Longrightarrow> str_nat n = str_nat (n div 10) @ [digit (n mod 10)]"
  by (subst str_nat.simps) simp

lemma zfill_two: "n < 100 \<Longrightarrow> zfill 2 (str_nat n) = two_digits n"
proof (cases "n < 10")
  case True
  then show ?thesis by (simp add: str_nat_small zfill_def two_digits_def)
next
  case False
  assume "n < 100"
  with False have "n div 10 < 10" "10 \<le> n" by auto
  then show ?thesis
    by (simp add: str_nat_step str_nat_small zfill_def two_digits_def)
qed

lemma str_nat_two: "10 \<le> n \<Longrightarrow> n < 100 \<Longrightarrow> str_nat n = [digit (n div 10), digit (n mod 10)]"
  by (simp add: str_nat_step str_nat_small)

lemma str_nat_three:
  "100 \<le> n \<Longrightarrow> n < 1000 \<Longrightarrow>
   str_nat n = [digit (n div 100), digit (n div 10 mod 10), digit (n mod 10)]"
proof -
  assume a: "100 \<le> n" "n < 1000"
  then have "10 \<le> n div 10" "n div 10 < 100" by auto
  then have "str_nat (n div 10) = [digit (n div 10 div 10), digit (n div 10 mod 10)]"
    by (rule str_nat_two)
  moreover have "n div 10 div 10 = n div 100" using div_mult2_eq [of n 10 10] by simp
  ultimately show ?thesis using a by (simp add: str_nat_step)
qed

lemma str_nat_four:
  "1000 \<le> n \<Longrightarrow> n < 10000 \<Longrightarrow>
   str_nat n = [digit (n div 1000), digit (n div 100 mod 10), digit (n div 10 mod 10), digit (n mod 10)]"
proof -
  assume a: "1000 \<le> n" "n < 10000"
  then have "100 \<le> n div 10" "n div 10 < 1000" by auto
  then have "str_nat (n div 10) =
      [digit (n div 10 div 100), digit (n div 10 div 10 mod 10), digit (n div 10 mod 10)]"
    by (rule str_nat_three)
  moreover have "n div 10 div 100 = n div 1000" "n div 10 div 10 = n div 100"
    using div_mult2_eq [of n 10 100] div_mult2_eq [of n 10 10] by simp_all
  ultimately show ?thesis using a by (simp add: str_nat_step)
qed

lemma replicate_zeros:
  "replicate 2 c = [c, c]" "replicate 3 c = [c, c, c]"
  by (simp_all add: numeral_2_eq_2 numeral_3_eq_3)

lemma zfill_four: "n < 10000 \<Longrightarrow> zfill 4 (str_nat n) = four_digits n"
proof -
  assume a: "n < 10000"
  consider "n < 10" | "10 \<le> n" "n < 100" | "100 \<le> n" "n < 1000" | "1000 \<le> n" by linarith
  then show ?thesis
  proof cases
    case 1
    then show ?thesis by (simp add: str_nat_small zfill_def four_digits_def replicate_zeros)
  next
    case 2
    then show ?thesis by (simp add: str_nat_two zfill_def four_digits_def replicate_zeros)
  next
    case 3
    then show ?thesis by (simp add: str_nat_three zfill_def four_digits_def)
  next
    case 4
    with a show ?thesis by (simp add: str_nat_four zfill_def four_digits_def)
  qed
qed

lemma strftime_job_format:
  "strftime ''_%Y%m%d_%H%M%S'' d =
     ''_'' @ zfill 4 (str_nat (year d)) @ zfill 2 (str_nat (month d)) @ zfill 2 (str_nat (day d))
     @ ''_'' @ zfill 2 (str_nat (hour d)) @ zfill 2 (str_nat (minute d)) @ zfill 2 (str_nat (second d))"
  by (simp add: strftime.simps directive_def)

lemma strftime_clock_reading:
  "clock_reading d \<Longrightarrow> strftime ''_%Y%m%d_%H%M%S'' d = ''_'' @ YYYYMMDD_HHMMSS d"
proof -
  assume "clock_reading d"
  then have "zfill 4 (str_nat (year d)) = four_digits (year d)"
    "zfill 2 (str_nat (month d)) = two_digits (month d)"
    "zfill 2 (str_nat (day d)) = two_digits (day d)"
    "zfill 2 (str_nat (hour d)) = two_digits (hour d)"
    "zfill 2 (str_nat (minute d)) = two_digits (minute d)"
    "zfill 2 (str_nat (second d)) = two_digits (second d)"
    by (simp_all add: clock_reading_def zfill_two zfill_four)
  then show ?thesis
    unfolding strftime_job_format YYYYMMDD_HHMMSS_def by simp
qed

subsection \<open>The assertions of the Finetune cell\<close>

lemma msg_7b_l4_neq_v100: "msg_7b_l4 prec \<noteq> msg_7b_v100"
proof
  assume "msg_7b_l4 prec = msg_7b_v100"
  then have "length (msg_7b_l4 prec) = length msg_7b_v100" by simp
  then show False by (simp add: msg_7b_l4_def msg_7b_v100_def)
qed

text \<open>
  C1. A model identifier that contains \<open>7b\<close> fails the first assertion on
  \<open>NVIDIA_TESLA_V100\<close>, whatever the precision mode. On \<open>NVIDIA_L4\<close> and
  \<open>NVIDIA_TESLA_A100\<close> that assertion does not fire: neither the 7B checks nor
  the whole chain of assertions ends in its error. A model identifier that does not
  contain \<open>7b\<close> passes the 7B checks on each of the three accelerators, and the whole
  chain returns a machine type.
\<close>

theorem C1_7b_accelerator_check:
  "(py_in ''7b'' model_id \<longrightarrow>
      finetune_preconditions model_id ''NVIDIA_TESLA_V100'' prec
        = Inl (AssertionError msg_7b_v100))
   \<and> (py_in ''7b'' model_id \<longrightarrow> acc \<in> {''NVIDIA_L4'', ''NVIDIA_TESLA_A100''} \<longrightarrow>
        check_7b model_id acc prec \<noteq> Inl (AssertionError msg_7b_v100)
        \<and> finetune_preconditions model_id acc prec \<noteq> Inl (AssertionError msg_7b_v100))
   \<and> (\<not> py_in ''7b'' model_id \<longrightarrow>
        acc \<in> {''NVIDIA_TESLA_V100'', ''NVIDIA_L4'', ''NVIDIA_TESLA_A100''} \<longrightarrow>
        check_7b model_id acc prec = Inr ()
        \<and> (\<exists>m. finetune_preconditions model_id acc prec = Inr m))"
  using msg_7b_l4_neq_v100 [of prec]
  by (auto simp: finetune_preconditions_def check_7b_def py_assert_def
      select_machine_type_def truthy_def)

theorem C1_7b_accelerator_check_witness:
  "py_in ''7b'' ''gemma-1.1-7b-it''
   \<and> finetune_preconditions ''gemma-1.1-7b-it'' ''NVIDIA_TESLA_V100'' ''8bit''
       = Inl (AssertionError msg_7b_v100)
   \<and> ''NVIDIA_L4'' \<in> {''NVIDIA_L4'', ''NVIDIA_TESLA_A100''}
   \<and> finetune_preconditions ''gemma-1.1-7b-it'' ''NVIDIA_L4'' ''8bit''
       \<noteq> Inl (AssertionError msg_7b_v100)
   \<and> \<not> py_in ''7b'' ''gemma-2b''
   \<and> ''NVIDIA_TESLA_V100'' \<in> {''NVIDIA_TESLA_V100'', ''NVIDIA_L4'', ''NVIDIA_TESLA_A100''}
   \<and> (\<exists>m. finetune_preconditions ''gemma-2b'' ''NVIDIA_TESLA_V100'' ''4bit'' = Inr m)"
  using C1_7b_accelerator_check [of "''gemma-1.1-7b-it''" "''8bit''" "''NVIDIA_L4''"]
        C1_7b_accelerator_check [of "''gemma-2b''" "''4bit''" "''NVIDIA_TESLA_V100''"]
  by simp

text \<open>
  C2. For a model identifier that contains \<open>7b\<close>: on \<open>NVIDIA_L4\<close> the assertions
  pass exactly when the precision mode is \<open>4bit\<close>, and any other mode ends in the
  AssertionError of the second assertion; on \<open>NVIDIA_TESLA_A100\<close> each of
  \<open>4bit\<close>, \<open>8bit\<close> and \<open>float16\<close> passes.
\<close>

theorem C2_l4_precision_check:
  "py_in ''7b'' model_id \<Longrightarrow>
     finetune_preconditions model_id ''NVIDIA_L4'' prec
       = (if prec = ''4bit'' then Inr ''g2-standard-12''
          else Inl (AssertionError (msg_7b_l4 prec)))
     \<and> (prec \<in> {''4bit'', ''8bit'', ''float16''} \<longrightarrow>
          finetune_preconditions model_id ''NVIDIA_TESLA_A100'' prec = Inr ''a2-highgpu-1g'')"
  by (simp add: finetune_preconditions_def check_7b_def py_assert_def
      select_machine_type_def truthy_def)

theorem C2_l4_precision_check_witness:
  "py_in ''7b'' ''gemma-7b''
   \<and> finetune_preconditions ''gemma-7b'' ''NVIDIA_L4'' ''float16''
       = Inl (AssertionError (msg_7b_l4 ''float16''))
   \<and> finetune_preconditions ''gemma-7b'' ''NVIDIA_L4'' ''4bit'' = Inr ''g2-standard-12''
   \<and> ''float16'' \<in> {''4bit'', ''8bit'', ''float16''}
   \<and> finetune_preconditions ''gemma-7b'' ''NVIDIA_TESLA_A100'' ''float16''
       = Inr ''a2-highgpu-1g''"
  using C2_l4_precision_check [of "''gemma-7b''" "''float16''"]
        C2_l4_precision_check [of "''gemma-7b''" "''4bit''"]
  by simp

text \<open>
  C4. The three accelerators of the form map to their machine types. For any other
  accelerator the mapping leaves \<open>None\<close>, and the chain of assertions ends in the
  AssertionError "Cannot automatically determine machine type", whatever the model and
  the precision mode. Whenever the chain passes, the machine type it gives is the one
  the mapping chose.
\<close>

theorem C4_machine_type_mapping:
  "select_machine_type ''NVIDIA_TESLA_V100'' = Some ''n1-standard-8''
   \<and> select_machine_type ''NVIDIA_L4'' = Some ''g2-standard-12''
   \<and> select_machine_type ''NVIDIA_TESLA_A100'' = Some ''a2-highgpu-1g''
   \<and> (acc \<notin> {''NVIDIA_TESLA_V100'', ''NVIDIA_L4'', ''NVIDIA_TESLA_A100''} \<longrightarrow>
        select_machine_type acc = None
        \<and> finetune_preconditions model_id acc prec
            = Inl (AssertionError (msg_machine_type acc)))
   \<and> (finetune_preconditions model_id acc prec = Inr m \<longrightarrow>
        select_machine_type acc = Some m)"
  by (auto simp: finetune_preconditions_def check_7b_def py_assert_def
      select_machine_type_def truthy_def split: if_splits)

theorem C4_machine_type_mapping_witness:
  "''NVIDIA_TESLA_T4'' \<notin> {''NVIDIA_TESLA_V100'', ''NVIDIA_L4'', ''NVIDIA_TESLA_A100''}
   \<and> select_machine_type ''NVIDIA_TESLA_T4'' = None
   \<and> finetune_preconditions ''gemma-7b-it'' ''NVIDIA_TESLA_T4'' ''8bit''
       = Inl (AssertionError (msg_machine_type ''NVIDIA_TESLA_T4''))
   \<and> finetune_preconditions ''gemma-2b'' ''NVIDIA_L4'' ''8bit'' = Inr ''g2-standard-12''
   \<and> select_machine_type ''NVIDIA_L4'' = Some ''g2-standard-12''"
  using C4_machine_type_mapping [of "''NVIDIA_TESLA_T4''" "''gemma-7b-it''" "''8bit''"]
        C4_machine_type_mapping
          [of "''NVIDIA_L4''" "''gemma-2b''" "''8bit''" "''g2-standard-12''"]
  by (simp add: finetune_preconditions_def check_7b_def py_assert_def
      select_machine_type_def truthy_def)

subsection \<open>Running statements\<close>

lemma calls_platform_effect [simp]: "calls (platform_effect c w) = calls w"
  by (cases c) simp_all

lemma ticks_platform_effect [simp]: "ticks (platform_effect c w) = ticks w"
  by (cases c) simp_all

lemma platform_effect_calls_update [simp]:
  "platform_effect c (w\<lparr>calls := x\<rparr>) = (platform_effect c w)\<lparr>calls := x\<rparr>"
  by (cases c) simp_all

lemma platform_effect_ticks_update [simp]:
  "platform_effect c (w\<lparr>ticks := x\<rparr>) = (platform_effect c w)\<lparr>ticks := x\<rparr>"
  by (cases c) simp_all

lemma andthen_assoc: "andthen (andthen m f) g = andthen m (\<lambda>x. andthen (f x) g)"
  by (auto simp: andthen_def fun_eq_iff split: prod.splits sum.splits)

subsection \<open>What a statement may call\<close>

text \<open>
  Rules that follow the structure of a statement: a statement makes only calls of a
  kind when each call written in it is of that kind.
\<close>

named_theorems makes_only_intros

lemma makes_only_returns [makes_only_intros]: "makes_only Q (returns x)"
  by (simp add: makes_only_def returns_def)

lemma makes_only_raises [makes_only_intros]: "makes_only Q (raises e)"
  by (simp add: makes_only_def raises_def)

lemma makes_only_lift [makes_only_intros]: "makes_only Q (lift r)"
  by (simp add: makes_only_def lift_def)

lemma makes_only_datetime_now [makes_only_intros]: "makes_only Q (datetime_now env)"
  by (simp add: makes_only_def datetime_now_def)

lemma makes_only_sdk [makes_only_intros]: "Q c \<Longrightarrow> makes_only Q (sdk env c)"
  by (simp add: makes_only_def sdk_def split: option.splits)

lemma makes_only_shell [makes_only_intros]: "Q (Shell cmd) \<Longrightarrow> makes_only Q (shell env cmd)"
  by (simp add: makes_only_def shell_def)

lemma makes_only_andthen [makes_only_intros]:
  assumes m: "makes_only Q m" and f: "\<And>x. makes_only Q (f x)"
  shows "makes_only Q (andthen m f)"
  unfolding makes_only_def
proof
  fix w
  from m obtain new where new: "calls (snd (m w)) = calls w @ new" "list_all Q new"
    unfolding makes_only_def by blast
  show "\<exists>new. calls (snd (andthen m f w)) = calls w @ new \<and> list_all Q new"
  proof (cases "m w")
    case (Pair r w')
    show ?thesis
    proof (cases r)
      case (Inl e)
      with Pair new show ?thesis by (auto simp: andthen_def)
    next
      case (Inr x)
      from f [of x] obtain new2 where
        "calls (snd (f x w')) = calls w' @ new2" "list_all Q new2"
        unfolding makes_only_def by blast
      with Pair Inr new have
        "calls (snd (andthen m f w)) = calls w @ (new @ new2)" "list_all Q (new @ new2)"
        by (auto simp: andthen_def)
      then show ?thesis by blast
    qed
  qed
qed

lemma makes_only_if [makes_only_intros]:
  "(c \<Longrightarrow> makes_only Q a) \<Longrightarrow> (\<not> c \<Longrightarrow> makes_only Q b) \<Longrightarrow> makes_only Q (if c then a else b)"
  by simp

lemma makes_only_case_option [makes_only_intros]:
  "(x = None \<Longrightarrow> makes_only Q a) \<Longrightarrow> (\<And>y. x = Some y \<Longrightarrow> makes_only Q (f y)) \<Longrightarrow>
   makes_only Q (case x of None \<Rightarrow> a | Some y \<Rightarrow> f y)"
  by (cases x) simp_all

lemma makes_only_case_prod [makes_only_intros]:
  "(\<And>a b. makes_only Q (f a b)) \<Longrightarrow> makes_only Q (case x of (a, b) \<Rightarrow> f a b)"
  by (cases x) simp

lemma makes_only_for_each [makes_only_intros]:
  "(\<And>x. makes_only Q (body x)) \<Longrightarrow> makes_only Q (for_each xs body)"
  by (induction xs) (auto intro: makes_only_returns makes_only_andthen)

lemma makes_only_get_job_name [makes_only_intros]:
  "makes_only Q (get_job_name_with_datetime env prefix)"
  unfolding get_job_name_with_datetime_def by (intro makes_only_intros)

lemmas cell_defs =
  project_cell_def enable_apis_cell_def bucket_cell_def create_bucket_def check_bucket_def
  setup_cell_def finetune_cell_def deploy_cell_def deploy_model_vllm_def predict_cell_def
  cleanup_cell_def

subsection \<open>Running the helper methods and the Finetune cell\<close>

lemma andthen_sdk:
  "andthen (sdk env c) f w =
     (case sdk_raises env (calls w) c of
        Some e \<Rightarrow> (Inl e, w\<lparr>calls := calls w @ [c]\<rparr>)
      | None \<Rightarrow> f () (platform_effect c (w\<lparr>calls := calls w @ [c]\<rparr>)))"
  by (simp add: andthen_def sdk_def split: option.splits)

lemma andthen_shell:
  "andthen (shell env cmd) f w =
     f (shell_output env (calls w) cmd) (w\<lparr>calls := calls w @ [Shell cmd]\<rparr>)"
  by (simp add: andthen_def shell_def)

lemma andthen_datetime_now:
  "andthen (datetime_now env) f w = f (clock env (ticks w)) (w\<lparr>ticks := Suc (ticks w)\<rparr>)"
  by (simp add: andthen_def datetime_now_def)

lemma andthen_get_job_name:
  "andthen (get_job_name_with_datetime env prefix) f w =
     f (prefix @ strftime ''_%Y%m%d_%H%M%S'' (clock env (ticks w))) (w\<lparr>ticks := Suc (ticks w)\<rparr>)"
  by (simp add: get_job_name_with_datetime_def andthen_def datetime_now_def returns_def)

lemma andthen_lift_run:
  "andthen (lift r) f w = (case r of Inl e \<Rightarrow> (Inl e, w) | Inr x \<Rightarrow> f x w)"
  by (simp add: andthen_def lift_def split: sum.splits)


lemma finetune_cell_fails:
  "finetune_preconditions (MODEL_ID p) (ACCELERATOR_TYPE p) (finetuning_precision_mode p) = Inl e
   \<Longrightarrow> finetune_cell env p S A = raises e"
  by (simp only: finetune_cell_def Let_def andthen_lift_Inl)


lemma finetune_cell_returns:
  assumes "finetune_cell env p S A w = (Inr r, w')"
  defines "job \<equiv> ''gemma-lora-train'' @ strftime ''_%Y%m%d_%H%M%S'' (clock env (ticks w))"
  defines "lora \<equiv> ''gemma-lora-adapter'' @ strftime ''_%Y%m%d_%H%M%S'' (clock env (Suc (ticks w)))"
  defines "merged \<equiv> ''gemma-merged-model'' @ strftime ''_%Y%m%d_%H%M%S'' (clock env (Suc (Suc (ticks w))))"
  shows "r = (job, os_path_join S merged)
     \<and> (\<exists>machine_type.
          finetune_preconditions (MODEL_ID p) (ACCELERATOR_TYPE p) (finetuning_precision_mode p) = Inr machine_type
          \<and> calls w' = calls w @
              [CustomContainerTrainingJob job TRAIN_DOCKER_URI,
               run_request job
                 (train_args env p (os_path_join ''google/'' (MODEL_ID p)) (os_path_join S lora)
                    (os_path_join S merged) [])
                 1 machine_type (ACCELERATOR_TYPE p) 1 A])"
  using assms(1) unfolding job_def lora_def merged_def finetune_cell_def Let_def
  by (auto simp: andthen_lift_run andthen_get_job_name andthen_sdk returns_def
      split: sum.splits option.splits)

subsection \<open>Statements that always raise\<close>

text \<open>
  A sequence always raises when its first statement does, or when whatever the first
  statement returns, the rest does.
\<close>

lemma fails_raises: "fails_making_only Q (raises e)"
  by (simp add: fails_making_only_def raises_def)

lemma fails_andthen_first:
  assumes "fails_making_only Q m"
  shows "fails_making_only Q (andthen m f)"
  unfolding fails_making_only_def
proof
  fix w
  from assms obtain e w' new where "m w = (Inl e, w')" "calls w' = calls w @ new" "list_all Q new"
    unfolding fails_making_only_def by blast
  then have "andthen m f w = (Inl e, w') \<and> calls w' = calls w @ new \<and> list_all Q new"
    by (simp add: andthen_def)
  then show "\<exists>e w' new. andthen m f w = (Inl e, w') \<and> calls w' = calls w @ new \<and> list_all Q new"
    by blast
qed

lemma fails_andthen_second:
  assumes m: "makes_only Q m" and f: "\<And>x. fails_making_only Q (f x)"
  shows "fails_making_only Q (andthen m f)"
  unfolding fails_making_only_def
proof
  fix w
  from m obtain new where new: "calls (snd (m w)) = calls w @ new" "list_all Q new"
    unfolding makes_only_def by blast
  show "\<exists>e w' new. andthen m f w = (Inl e, w') \<and> calls w' = calls w @ new \<and> list_all Q new"
  proof (cases "m w")
    case (Pair r w1)
    show ?thesis
    proof (cases r)
      case (Inl e)
      with Pair new have "andthen m f w = (Inl e, w1) \<and> calls w1 = calls w @ new \<and> list_all Q new"
        by (simp add: andthen_def)
      then show ?thesis by blast
    next
      case (Inr x)
      from f [of x] obtain e w2 new2 where
        "f x w1 = (Inl e, w2)" "calls w2 = calls w1 @ new2" "list_all Q new2"
        unfolding fails_making_only_def by blast
      with Pair Inr new have
        "andthen m f w = (Inl e, w2) \<and> calls w2 = calls w @ (new @ new2) \<and> list_all Q (new @ new2)"
        by (simp add: andthen_def)
      then show ?thesis by blast
    qed
  qed
qed

lemma fails_case_prod:
  "(\<And>a b. fails_making_only Q (f a b)) \<Longrightarrow> fails_making_only Q (case x of (a, b) \<Rightarrow> f a b)"
  by (cases x) simp

subsection \<open>A run that stops in the setup or in the Finetune cell\<close>

lemma makes_only_setup_prefix:
  assumes "\<And>cmd. Q (Shell cmd)"
  shows "makes_only Q (project_cell env p)" "makes_only Q (enable_apis_cell env)"
    "makes_only Q (bucket_cell env p)"
  unfolding project_cell_def enable_apis_cell_def bucket_cell_def create_bucket_def
    check_bucket_def Let_def
  by (intro makes_only_intros assms)+

lemma makes_only_setup_cell:
  assumes "\<And>a b c. Q (Aiplatform_init a b c)"
  shows "makes_only Q (setup_cell env p S)"
  unfolding setup_cell_def Let_def
  by (intro makes_only_intros assms)

lemma notebook_fails_at_setup:
  assumes sh: "\<And>cmd. Q (Shell cmd)"
    and st: "\<And>S. fails_making_only Q (setup_cell env p S)"
  shows "fails_making_only Q (notebook env p)"
  unfolding notebook_def
  apply (rule fails_andthen_second, rule makes_only_setup_prefix, rule sh)
  apply (rule fails_andthen_second, rule makes_only_setup_prefix, rule sh)
  apply (rule fails_andthen_second, rule makes_only_setup_prefix, rule sh)
  apply (intro fails_case_prod)
  apply (rule fails_andthen_first, rule st)
  done

lemma notebook_fails_at_finetune:
  assumes sh: "\<And>cmd. Q (Shell cmd)"
    and init: "\<And>a b c. Q (Aiplatform_init a b c)"
    and ft: "\<And>S A. fails_making_only Q (finetune_cell env p S A)"
  shows "fails_making_only Q (notebook env p)"
  unfolding notebook_def
  apply (rule fails_andthen_second, rule makes_only_setup_prefix, rule sh)
  apply (rule fails_andthen_second, rule makes_only_setup_prefix, rule sh)
  apply (rule fails_andthen_second, rule makes_only_setup_prefix, rule sh)
  apply (intro fails_case_prod)
  apply (rule fails_andthen_second, rule makes_only_setup_cell, rule init)
  apply (intro fails_case_prod)
  apply (rule fails_andthen_first, rule ft)
  done


lemma setup_cell_fails:
  assumes "HF_TOKEN p = []" and "\<And>a b c. Q (Aiplatform_init a b c)"
  shows "fails_making_only Q (setup_cell env p S)"
  unfolding setup_cell_def Let_def
  apply (rule fails_andthen_second)
   apply (intro makes_only_intros assms)
  apply (simp add: assms(1) truthy_def py_assert_def fails_raises)
  done

text \<open>
  C6. When one of the three assertions fails, the Finetune cell raises its error and
  leaves the world as it was: nothing is called and the clock is not read. A run of
  the whole notebook then ends in an error, and none of the calls it has made by then
  creates or submits a training job. When the assertions pass, creating the training
  job is the first call of the cell.
\<close>

theorem C6_assertions_before_submission:
  "(finetune_preconditions (MODEL_ID p) (ACCELERATOR_TYPE p) (finetuning_precision_mode p) = Inl e
      \<longrightarrow> finetune_cell env p S A w = (Inl e, w)
        \<and> (\<exists>e' w' new. notebook env p w = (Inl e', w') \<and> calls w' = calls w @ new
             \<and> list_all (\<lambda>c. \<not> is_training_call c) new))
   \<and> (finetune_preconditions (MODEL_ID p) (ACCELERATOR_TYPE p) (finetuning_precision_mode p) = Inr m
      \<longrightarrow> (\<exists>job rest. calls (snd (finetune_cell env p S A w))
              = calls w @ CustomContainerTrainingJob job TRAIN_DOCKER_URI # rest))"
proof (intro conjI impI)
  assume pre: "finetune_preconditions (MODEL_ID p) (ACCELERATOR_TYPE p) (finetuning_precision_mode p) = Inl e"
  then have raise: "\<And>S A. finetune_cell env p S A = raises e"
    by (rule finetune_cell_fails)
  then show "finetune_cell env p S A w = (Inl e, w)"
    by (simp add: raises_def)
  have "fails_making_only (\<lambda>c. \<not> is_training_call c) (notebook env p)"
    by (rule notebook_fails_at_finetune) (simp_all add: raise fails_raises)
  then show "\<exists>e' w' new. notebook env p w = (Inl e', w') \<and> calls w' = calls w @ new
             \<and> list_all (\<lambda>c. \<not> is_training_call c) new"
    unfolding fails_making_only_def by blast
next
  assume "finetune_preconditions (MODEL_ID p) (ACCELERATOR_TYPE p) (finetuning_precision_mode p) = Inr m"
  then show "\<exists>job rest. calls (snd (finetune_cell env p S A w))
              = calls w @ CustomContainerTrainingJob job TRAIN_DOCKER_URI # rest"
    unfolding finetune_cell_def Let_def
    by (simp add: andthen_get_job_name andthen_sdk returns_def split: option.splits)
qed

subsection \<open>Names, prediction and deployment\<close>

lemma get_job_name_run:
  "get_job_name_with_datetime env prefix w =
     (Inr (prefix @ strftime ''_%Y%m%d_%H%M%S'' (clock env (ticks w))), w\<lparr>ticks := Suc (ticks w)\<rparr>)"
  by (simp add: get_job_name_with_datetime_def andthen_def datetime_now_def returns_def)

text \<open>
  C5. When the clock shows a date with a year of four digits,
  \<^verbatim>\<open>get_job_name_with_datetime(prefix)\<close> returns the prefix, an underscore and the
  reading as YYYYMMDD_HHMMSS, and reads the clock once; the result is a function of
  the prefix and the reading alone. When the Finetune cell returns, the training job is
  named so from \<open>gemma-lora-train\<close> and the first reading, the adapter directory from
  \<open>gemma-lora-adapter\<close> and the second, the merged-model directory from
  \<open>gemma-merged-model\<close> and the third, the two directories below the staging
  bucket.
\<close>

theorem C5_job_names:
  "(clock_reading (clock env (ticks w)) \<longrightarrow>
      get_job_name_with_datetime env prefix w =
        (Inr (prefix @ ''_'' @ YYYYMMDD_HHMMSS (clock env (ticks w))), w\<lparr>ticks := Suc (ticks w)\<rparr>))
   \<and> (clock_reading (clock env (ticks w)) \<longrightarrow>
        clock_reading (clock env (Suc (ticks w))) \<longrightarrow>
        clock_reading (clock env (Suc (Suc (ticks w)))) \<longrightarrow>
        finetune_cell env p S A w = (Inr (train_job, merged_model_output_dir), w') \<longrightarrow>
          train_job = ''gemma-lora-train'' @ ''_'' @ YYYYMMDD_HHMMSS (clock env (ticks w))
          \<and> merged_model_output_dir =
              os_path_join S (''gemma-merged-model'' @ ''_'' @
                YYYYMMDD_HHMMSS (clock env (Suc (Suc (ticks w)))))
          \<and> (\<exists>machine_type.
               calls w' = calls w @
                 [CustomContainerTrainingJob train_job TRAIN_DOCKER_URI,
                  run_request train_job
                    (train_args env p (os_path_join ''google/'' (MODEL_ID p))
                       (os_path_join S (''gemma-lora-adapter'' @ ''_'' @
                          YYYYMMDD_HHMMSS (clock env (Suc (ticks w)))))
                       merged_model_output_dir [])
                    1 machine_type (ACCELERATOR_TYPE p) 1 A]))"
proof (intro conjI impI)
  assume "clock_reading (clock env (ticks w))"
  then show "get_job_name_with_datetime env prefix w =
        (Inr (prefix @ ''_'' @ YYYYMMDD_HHMMSS (clock env (ticks w))), w\<lparr>ticks := Suc (ticks w)\<rparr>)"
    by (simp only: get_job_name_run strftime_clock_reading)
next
  assume c: "clock_reading (clock env (ticks w))" "clock_reading (clock env (Suc (ticks w)))"
    "clock_reading (clock env (Suc (Suc (ticks w))))"
    and run: "finetune_cell env p S A w = (Inr (train_job, merged_model_output_dir), w')"
  note r = finetune_cell_returns [OF run, unfolded strftime_clock_reading [OF c(1)]
      strftime_clock_reading [OF c(2)] strftime_clock_reading [OF c(3)]]
  from r show "train_job = ''gemma-lora-train'' @ ''_'' @ YYYYMMDD_HHMMSS (clock env (ticks w))"
    by simp
  from r show "merged_model_output_dir =
              os_path_join S (''gemma-merged-model'' @ ''_'' @
                YYYYMMDD_HHMMSS (clock env (Suc (Suc (ticks w)))))"
    by simp
  from r show "\<exists>machine_type.
               calls w' = calls w @
                 [CustomContainerTrainingJob train_job TRAIN_DOCKER_URI,
                  run_request train_job
                    (train_args env p (os_path_join ''google/'' (MODEL_ID p))
                       (os_path_join S (''gemma-lora-adapter'' @ ''_'' @
                          YYYYMMDD_HHMMSS (clock env (Suc (ticks w)))))
                       merged_model_output_dir [])
                    1 machine_type (ACCELERATOR_TYPE p) 1 A]"
    by auto
qed


lemma sdk_run:
  "sdk env c w =
     (case sdk_raises env (calls w) c of
        Some e \<Rightarrow> (Inl e, w\<lparr>calls := calls w @ [c]\<rparr>)
      | None \<Rightarrow> (Inr (), platform_effect c (w\<lparr>calls := calls w @ [c]\<rparr>)))"
  by (simp add: sdk_def)

lemma new_calls_sdk: "new_calls w (snd (sdk env c w)) = [c]"
  by (simp add: new_calls_def sdk_def split: option.splits)

lemma new_calls_sdk_sdk:
  "new_calls w (snd (andthen (sdk env c1) (\<lambda>_. sdk env c2) w)) =
     (if sdk_raises env (calls w) c1 = None then [c1, c2] else [c1])"
  by (simp add: new_calls_def andthen_sdk sdk_run split: option.splits)

lemma predict_cell_shape:
  "predict_cell env p endpoint =
     (if ENDPOINT_NAME p = [] then sdk env (Endpoint_predict endpoint (predict_instances p))
      else andthen (sdk env (Endpoint_get (aip_endpoint_name p)))
             (\<lambda>_. sdk env (Endpoint_predict (aip_endpoint_name p) (predict_instances p))))"
  by (simp add: predict_cell_def truthy_def andthen_assoc Let_def)

text \<open>
  C7. The instances of the Predict cell are one dictionary with exactly the keys
  prompt, max_tokens, temperature, top_p and top_k, the prompt wrapped in
  \<^verbatim>\<open>### Human: ...### Assistant: \<close>. With no endpoint name given, the cell makes one
  call, \<^verbatim>\<open>endpoint.predict\<close> on the deployed endpoint with these instances. With an
  endpoint name it first loads that endpoint and, when the load returns, predicts on it.
  In every case the cell calls \<^verbatim>\<open>predict\<close> at most once.
\<close>

theorem C7_single_predict_request:
  fixes env p endpoint w
  defines "made \<equiv> new_calls w (snd (predict_cell env p endpoint w))"
  shows "(\<exists>inst. predict_instances p = [inst]
            \<and> map fst inst = [''prompt'', ''max_tokens'', ''temperature'', ''top_p'', ''top_k'']
            \<and> map_of inst ''prompt'' = Some (PyStr (''### Human: '' @ prompt p @ ''### Assistant: '')))
     \<and> (ENDPOINT_NAME p = [] \<longrightarrow> made = [Endpoint_predict endpoint (predict_instances p)])
     \<and> (ENDPOINT_NAME p \<noteq> [] \<longrightarrow> sdk_raises env (calls w) (Endpoint_get (aip_endpoint_name p)) = None \<longrightarrow>
           made = [Endpoint_get (aip_endpoint_name p),
                   Endpoint_predict (aip_endpoint_name p) (predict_instances p)])
     \<and> length (filter is_predict_call made) \<le> 1"
proof (intro conjI impI)
  show "\<exists>inst. predict_instances p = [inst]
            \<and> map fst inst = [''prompt'', ''max_tokens'', ''temperature'', ''top_p'', ''top_k'']
            \<and> map_of inst ''prompt'' = Some (PyStr (''### Human: '' @ prompt p @ ''### Assistant: ''))"
    by (simp add: predict_instances_def)
  show "made = [Endpoint_predict endpoint (predict_instances p)]" if "ENDPOINT_NAME p = []"
    using that by (simp add: made_def predict_cell_shape new_calls_sdk)
  show "made = [Endpoint_get (aip_endpoint_name p),
                   Endpoint_predict (aip_endpoint_name p) (predict_instances p)]"
    if "ENDPOINT_NAME p \<noteq> []" "sdk_raises env (calls w) (Endpoint_get (aip_endpoint_name p)) = None"
    using that by (simp add: made_def predict_cell_shape new_calls_sdk_sdk)
  show "length (filter is_predict_call made) \<le> 1"
    by (simp add: made_def predict_cell_shape new_calls_sdk new_calls_sdk_sdk)
qed


lemma is_upload_request [simp]: "is_upload (upload_request n a e)"
  by (simp add: upload_request_def)

lemma platform_endpoints_upload [simp]:
  "platform_endpoints (platform_effect (upload_request n a e) w) = platform_endpoints w"
  by (simp add: upload_request_def)

lemma deploy_model_vllm_shape:
  "\<exists>args env_vars.
     deploy_model_vllm env tok model_name model_id sa base machine accel cnt gmu mml dtype =
       andthen (sdk env (Endpoint_create (model_name @ ''-endpoint''))) (\<lambda>_.
       andthen (sdk env (upload_request model_name args env_vars)) (\<lambda>_.
       andthen (sdk env (Model_deploy model_name (model_name @ ''-endpoint'') machine accel cnt 1800 sa)) (\<lambda>_.
       returns (model_name, model_name @ ''-endpoint''))))"
  unfolding deploy_model_vllm_def Let_def by blast

lemma deploy_chain:
  fixes ca cb cc :: call and env :: env and r :: 'a
  defines "run \<equiv> andthen (sdk env ca) (\<lambda>_. andthen (sdk env cb) (\<lambda>_. andthen (sdk env cc) (\<lambda>_. returns r)))"
  shows "\<exists>rest. calls (snd (run w)) = calls w @ ca # rest \<and> (rest = [] \<or> rest = [cb] \<or> rest = [cb, cc])"
    and "sdk_raises env (calls w) ca = None \<Longrightarrow>
           \<exists>rest. calls (snd (run w)) = calls w @ ca # cb # rest \<and> (rest = [] \<or> rest = [cc])"
    and "sdk_raises env (calls w) ca = None \<Longrightarrow> fst (run w) = Inl e \<Longrightarrow>
           (last (calls (snd (run w))) = cb \<or> last (calls (snd (run w))) = cc)
           \<and> sdk_raises env (butlast (calls (snd (run w)))) (last (calls (snd (run w)))) = Some e"
    and "sdk_raises env (calls w) ca = None \<Longrightarrow>
           platform_endpoints (snd (run w)) =
             platform_endpoints (platform_effect cc (platform_effect cb (platform_effect ca w)))
           \<or> platform_endpoints (snd (run w)) = platform_endpoints (platform_effect cb (platform_effect ca w))
           \<or> platform_endpoints (snd (run w)) = platform_endpoints (platform_effect ca w)"
  unfolding run_def
  by (auto simp: andthen_sdk returns_def butlast_append split: option.splits)



text \<open>
  C8. \<^verbatim>\<open>Endpoint.create\<close> is the first call of \<^verbatim>\<open>deploy_model_vllm\<close>, and the function
  never deletes an endpoint. When the creation returns, the upload follows it, then at
  most the deployment; the endpoint \<open>model_name-endpoint\<close> is on the platform when the
  function ends, also when it ends in an error, and an error is then the one that the
  upload or the deployment raised.
\<close>

theorem C8_endpoint_before_upload:
  fixes env tok model_name model_id sa base machine accel cnt gmu mml dtype w
  defines "run \<equiv> deploy_model_vllm env tok model_name model_id sa base machine accel cnt gmu mml dtype w"
  defines "endpoint \<equiv> model_name @ ''-endpoint''"
  shows "(\<exists>rest. calls (snd run) = calls w @ Endpoint_create endpoint # rest
            \<and> list_all (\<lambda>c. \<not> is_endpoint_delete c) rest)
    \<and> (sdk_raises env (calls w) (Endpoint_create endpoint) = None \<longrightarrow>
          (\<exists>upload rest. calls (snd run) = calls w @ Endpoint_create endpoint # upload # rest
             \<and> is_upload upload \<and> (rest = [] \<or> (\<exists>d. rest = [d] \<and> is_deploy d)))
          \<and> platform_endpoints (snd run) = platform_endpoints w @ [endpoint]
          \<and> (\<forall>e. fst run = Inl e \<longrightarrow>
                (is_upload (last (calls (snd run))) \<or> is_deploy (last (calls (snd run))))
                \<and> sdk_raises env (butlast (calls (snd run))) (last (calls (snd run))) = Some e))"
proof -
  obtain args env_vars where shape:
    "deploy_model_vllm env tok model_name model_id sa base machine accel cnt gmu mml dtype =
       andthen (sdk env (Endpoint_create endpoint)) (\<lambda>_.
       andthen (sdk env (upload_request model_name args env_vars)) (\<lambda>_.
       andthen (sdk env (Model_deploy model_name endpoint machine accel cnt 1800 sa)) (\<lambda>_.
       returns (model_name, endpoint))))"
    unfolding endpoint_def using deploy_model_vllm_shape by blast
  note chain = deploy_chain [where env = env and ca = "Endpoint_create endpoint"
      and cb = "upload_request model_name args env_vars"
      and cc = "Model_deploy model_name endpoint machine accel cnt 1800 sa"
      and r = "(model_name, endpoint)" and w = w, folded shape, folded run_def]
  have a: "\<exists>rest. calls (snd run) = calls w @ Endpoint_create endpoint # rest
            \<and> list_all (\<lambda>c. \<not> is_endpoint_delete c) rest"
    using chain(1) by (auto simp: upload_request_def)
  have b: "\<exists>upload rest. calls (snd run) = calls w @ Endpoint_create endpoint # upload # rest
             \<and> is_upload upload \<and> (rest = [] \<or> (\<exists>d. rest = [d] \<and> is_deploy d))"
    if "sdk_raises env (calls w) (Endpoint_create endpoint) = None"
    using chain(2) [OF that] by (metis is_upload_request is_deploy.simps(1))
  have c: "platform_endpoints (snd run) = platform_endpoints w @ [endpoint]"
    if "sdk_raises env (calls w) (Endpoint_create endpoint) = None"
    using chain(4) [OF that] by auto
  have d: "(is_upload (last (calls (snd run))) \<or> is_deploy (last (calls (snd run))))
                \<and> sdk_raises env (butlast (calls (snd run))) (last (calls (snd run))) = Some e"
    if "sdk_raises env (calls w) (Endpoint_create endpoint) = None" "fst run = Inl e" for e
    using chain(3) [OF that] by auto
  from a b c d show ?thesis by blast
qed

subsection \<open>The sample run, cell by cell\<close>

text \<open>
  What each cell returns and leaves behind on the sample platform, from any world.
\<close>

lemma sample_params_fields:
  "PROJECT_ID sample_params = ''crafty-progress-421108''"
  "REGION sample_params = ''europe-west4''"
  "BUCKET_URI sample_params = Some ''gs://''"
  "HF_TOKEN sample_params = ''hf_read_token''"
  "MODEL_ID sample_params = ''gemma-2b''"
  "ACCELERATOR_TYPE sample_params = ''NVIDIA_TESLA_V100''"
  "finetuning_precision_mode sample_params = ''4bit''"
  "ENDPOINT_NAME sample_params = []"
  "delete_bucket sample_params = False"
  by (simp_all add: sample_params_def notebook_defaults_def)

lemma sample_env_fields:
  "clock sample_env = sample_clock"
  "shell_output sample_env = sample_shell_output"
  "sdk_raises sample_env h c = None"
  by (simp_all add: sample_env_def)

lemma andthen_sdk_sample:
  "andthen (sdk sample_env c) f w = f () (platform_effect c (w\<lparr>calls := calls w @ [c]\<rparr>))"
  by (simp add: andthen_sdk sample_env_fields)

lemma sdk_sample:
  "sdk sample_env c w = (Inr (), platform_effect c (w\<lparr>calls := calls w @ [c]\<rparr>))"
  by (simp add: sdk_def sample_env_fields)

lemma platform_effect_requests [simp]:
  "platform_effect (upload_request n a e) w = w\<lparr>platform_models := platform_models w @ [n]\<rparr>"
  "platform_effect (run_request j args rc mt acc cnt sa) w = w\<lparr>platform_jobs := platform_jobs w @ [j]\<rparr>"
  by (simp_all add: upload_request_def run_request_def)

lemma returns_run: "returns x w = (Inr x, w)"
  by (simp add: returns_def)

lemma sample_describe:
  "sample_shell_output h (describe_command x) =
     [''projectId: crafty-progress-421108'',
      ''projectNumber: '' @ [CHR 0x27] @ ''123456789012'' @ [CHR 0x27]]"
  by (simp add: sample_shell_output_def describe_command_def)

lemma sample_strip:
  "py_replace (CHR 0x27) [] (strip ('' '' @ [CHR 0x27] @ ''123456789012'' @ [CHR 0x27])) = ''123456789012''"
  by (simp add: strip_def isspace_def py_replace_def)

lemma sample_preconditions:
  "finetune_preconditions ''gemma-2b'' ''NVIDIA_TESLA_V100'' ''4bit'' = Inr ''n1-standard-8''"
  by (simp add: finetune_preconditions_def check_7b_def select_machine_type_def truthy_def)


lemma bucket_cell_sample:
  "bucket_cell sample_env sample_params w =
     (Inr (fresh_bucket_uri ''crafty-progress-421108'' (strftime ''%Y%m%d%H%M%S'' (sample_clock (ticks w))),
           os_path_join (fresh_bucket_uri ''crafty-progress-421108'' (strftime ''%Y%m%d%H%M%S'' (sample_clock (ticks w)))) ''temporal'',
           compute_service_account ''123456789012''),
      w\<lparr>ticks := Suc (ticks w),
        calls := calls w @
          [Shell (make_bucket_command ''europe-west4''
                   (fresh_bucket_uri ''crafty-progress-421108'' (strftime ''%Y%m%d%H%M%S'' (sample_clock (ticks w))))),
           Shell (describe_command ''crafty-progress-421108''),
           Shell (iam_command (compute_service_account ''123456789012'')
                   (bucket_name (fresh_bucket_uri ''crafty-progress-421108'' (strftime ''%Y%m%d%H%M%S'' (sample_clock (ticks w))))))]\<rparr>)"
  unfolding bucket_cell_def create_bucket_def Let_def
  by (simp add: andthen_datetime_now andthen_shell andthen_assoc sample_params_fields sample_env_fields
      sample_describe py_index_def sample_strip [simplified] returns_run)



lemma setup_cell_sample:
  "setup_cell sample_env sample_params S w =
     (Inr ([], []), w\<lparr>calls := calls w @ [Aiplatform_init ''crafty-progress-421108'' ''europe-west4'' S]\<rparr>)"
  by (simp add: setup_cell_def andthen_sdk_sample sample_params_fields py_assert_def truthy_def
      returns_run)

lemma andthen_get_job_name_sample:
  "andthen (get_job_name_with_datetime sample_env prefix) f w =
     f (sample_name prefix (ticks w)) (w\<lparr>ticks := Suc (ticks w)\<rparr>)"
  by (simp add: andthen_get_job_name sample_env_fields sample_name_def)

lemma finetune_cell_sample:
  "finetune_cell sample_env sample_params S A w =
     (Inr (sample_name ''gemma-lora-train'' (ticks w),
           os_path_join S (sample_name ''gemma-merged-model'' (Suc (Suc (ticks w))))),
      w\<lparr>ticks := Suc (Suc (Suc (ticks w))),
        calls := calls w @
          [CustomContainerTrainingJob (sample_name ''gemma-lora-train'' (ticks w)) TRAIN_DOCKER_URI,
           run_request (sample_name ''gemma-lora-train'' (ticks w))
             (train_args sample_env sample_params (os_path_join ''google/'' ''gemma-2b'')
                (os_path_join S (sample_name ''gemma-lora-adapter'' (Suc (ticks w))))
                (os_path_join S (sample_name ''gemma-merged-model'' (Suc (Suc (ticks w))))) [])
             1 ''n1-standard-8'' ''NVIDIA_TESLA_V100'' 1 A],
        platform_jobs := platform_jobs w @ [sample_name ''gemma-lora-train'' (ticks w)]\<rparr>)"
  unfolding finetune_cell_def Let_def
  by (simp add: sample_params_fields sample_preconditions andthen_get_job_name_sample
      andthen_sdk_sample returns_run)


lemma deploy_cell_sample:
  "deploy_cell sample_env sample_params M A w =
     (Inr (sample_name ''gemma-vllm-serve'' (ticks w),
           sample_name ''gemma-vllm-serve'' (ticks w) @ ''-endpoint''),
      w\<lparr>ticks := Suc (ticks w),
        calls := calls w @
          [Endpoint_create (sample_name ''gemma-vllm-serve'' (ticks w) @ ''-endpoint''),
           upload_request (sample_name ''gemma-vllm-serve'' (ticks w))
             (vllm_args sample_env M 1 (9 / 10) 2048 ''auto'')
             (serving_env_vars (Some ''hf_read_token'') ''google/gemma-2b''),
           Model_deploy (sample_name ''gemma-vllm-serve'' (ticks w))
             (sample_name ''gemma-vllm-serve'' (ticks w) @ ''-endpoint'')
             ''g2-standard-12'' ''NVIDIA_L4'' 1 1800 A],
        platform_endpoints := platform_endpoints w @
          [sample_name ''gemma-vllm-serve'' (ticks w) @ ''-endpoint''],
        platform_models := platform_models w @ [sample_name ''gemma-vllm-serve'' (ticks w)],
        platform_deployed := platform_deployed w @
          [(sample_name ''gemma-vllm-serve'' (ticks w),
            sample_name ''gemma-vllm-serve'' (ticks w) @ ''-endpoint'')]\<rparr>)"
  unfolding deploy_cell_def deploy_model_vllm_def Let_def
  by (simp add: andthen_get_job_name_sample andthen_sdk_sample returns_run
      sample_params_fields notebook_defaults_def sample_params_def truthy_opt_def truthy_def)


lemma predict_cell_sample:
  "predict_cell sample_env sample_params endpoint w =
     (Inr (), w\<lparr>calls := calls w @ [Endpoint_predict endpoint (predict_instances sample_params)]\<rparr>)"
  by (simp add: predict_cell_shape sample_params_fields sdk_sample)

lemma cleanup_cell_sample:
  "cleanup_cell sample_env sample_params train_job [] [] b w =
     (Inr (), w\<lparr>calls := calls w @ [TrainJob_delete train_job],
               platform_jobs := removeAll train_job (platform_jobs w)\<rparr>)"
  by (simp add: cleanup_cell_def andthen_sdk_sample sample_params_fields returns_run)

lemma sample_stamp:
  "n < 60 \<Longrightarrow> strftime ''_%Y%m%d_%H%M%S'' (sample_clock n) = ''_20240517_0930'' @ two_digits n"
  by (simp add: strftime_job_format sample_clock_def zfill_two zfill_four two_digits_def
      four_digits_def digit_def)

lemma sample_name_4:
  "sample_name ''gemma-vllm-serve'' (Suc (Suc (Suc (Suc 0)))) = ''gemma-vllm-serve_20240517_093004''"
proof -
  have "Suc (Suc (Suc (Suc 0))) = 4" by simp
  then show ?thesis
    by (simp add: sample_name_def sample_stamp two_digits_def digit_def)
qed

subsection \<open>The bucket cell\<close>

lemma project_cell_run:
  "project_cell env p w = (Inr (), w\<lparr>calls := calls w @ [Shell (project_command (PROJECT_ID p))]\<rparr>)"
  by (simp add: project_cell_def andthen_shell returns_run)

lemma enable_apis_cell_run:
  "enable_apis_cell env w = (Inr (), w\<lparr>calls := calls w @ [Shell enable_apis_command]\<rparr>)"
  by (simp add: enable_apis_cell_def andthen_shell returns_run)

lemma raises_run: "raises e w = (Inl e, w)"
  by (simp add: raises_def)

lemma lower_char_idem: "lower_char (lower_char c) = lower_char c"
proof -
  have "of_char c < (256 :: nat)" by simp
  then show ?thesis
    unfolding lower_char_def Let_def
    by (auto simp: of_char_of)
qed

lemma lower_idem: "lower (lower s) = lower s"
  by (simp add: lower_def lower_char_idem)

lemma lower_differs: "lower a \<noteq> lower b \<Longrightarrow> lower a \<noteq> b"
  using lower_idem by metis


lemma bucket_cell_given:
  assumes "BUCKET_URI p = Some u" "strip u \<noteq> []" "u \<noteq> ''gs://''"
  shows "bucket_cell env p w =
     andthen (check_bucket env p u) (\<lambda>bucket_uri.
       andthen (shell env (describe_command (PROJECT_ID p))) (\<lambda>shell_output.
       andthen (lift (py_index shell_output (- 1))) (\<lambda>last_line.
       andthen (lift (py_index (py_split (CHR '':'') last_line) 1)) (\<lambda>field.
       andthen (shell env (iam_command (compute_service_account (py_replace (CHR 0x27) [] (strip field)))
                  (bucket_name bucket_uri))) (\<lambda>_.
       returns (bucket_uri, os_path_join bucket_uri ''temporal'',
                compute_service_account (py_replace (CHR 0x27) [] (strip field))))))))
       (w\<lparr>ticks := Suc (ticks w)\<rparr>)"
  unfolding bucket_cell_def Let_def
  by (simp add: andthen_datetime_now assms)

lemma check_bucket_assert:
  "\<not> startswith u ''gs://'' \<Longrightarrow> check_bucket env p u = raises (AssertionError msg_bucket_uri)"
  by (simp add: check_bucket_def py_assert_def)

lemma check_bucket_region:
  assumes "startswith u ''gs://''"
    and "shell_output env (calls w) (ls_location_command (bucket_name u)) = line # rest"
  shows "check_bucket env p u w =
     (if lower (strip line) \<noteq> REGION p
      then Inl (ValueError (msg_bucket_region (lower (strip line)) (REGION p)))
      else Inr u,
      w\<lparr>calls := calls w @ [Shell (ls_location_command (bucket_name u))]\<rparr>)"
  using assms
  by (simp add: check_bucket_def py_assert_def andthen_shell py_index_def Let_def raises_run
      returns_run)


lemma bucket_cell_assertion:
  assumes "BUCKET_URI p = Some u" "strip u \<noteq> []" "u \<noteq> ''gs://''" "\<not> startswith u ''gs://''"
  shows "bucket_cell env p w = (Inl (AssertionError msg_bucket_uri), w\<lparr>ticks := Suc (ticks w)\<rparr>)"
  by (simp add: bucket_cell_given [OF assms(1-3)] check_bucket_assert [OF assms(4)] raises_run)

lemma notebook_bucket_assertion:
  assumes "BUCKET_URI p = Some u" "strip u \<noteq> []" "u \<noteq> ''gs://''" "\<not> startswith u ''gs://''"
  shows "notebook env p w =
     (Inl (AssertionError msg_bucket_uri),
      w\<lparr>calls := calls w @ [Shell (project_command (PROJECT_ID p)), Shell enable_apis_command],
        ticks := Suc (ticks w)\<rparr>)"
  unfolding notebook_def
  by (simp add: andthen_def project_cell_run enable_apis_cell_run bucket_cell_assertion [OF assms])

lemma bucket_cell_region:
  assumes "BUCKET_URI p = Some u" "strip u \<noteq> []" "u \<noteq> ''gs://''" "startswith u ''gs://''"
    and "shell_output env (calls w) (ls_location_command (bucket_name u)) = line # rest"
    and "lower (strip line) \<noteq> REGION p"
  shows "bucket_cell env p w =
     (Inl (ValueError (msg_bucket_region (lower (strip line)) (REGION p))),
      w\<lparr>calls := calls w @ [Shell (ls_location_command (bucket_name u))], ticks := Suc (ticks w)\<rparr>)"
proof -
  have "check_bucket env p u (w\<lparr>ticks := Suc (ticks w)\<rparr>) =
     (Inl (ValueError (msg_bucket_region (lower (strip line)) (REGION p))),
      w\<lparr>calls := calls w @ [Shell (ls_location_command (bucket_name u))], ticks := Suc (ticks w)\<rparr>)"
    using check_bucket_region [of u env "w\<lparr>ticks := Suc (ticks w)\<rparr>" line rest p] assms
    by simp
  then show ?thesis
    by (simp add: bucket_cell_given [OF assms(1-3)] andthen_def)
qed

lemma notebook_bucket_region:
  assumes "BUCKET_URI p = Some u" "strip u \<noteq> []" "u \<noteq> ''gs://''" "startswith u ''gs://''"
    and "shell_output env
           (calls w @ [Shell (project_command (PROJECT_ID p)), Shell enable_apis_command])
           (ls_location_command (bucket_name u)) = line # rest"
    and "lower (strip line) \<noteq> REGION p"
  shows "notebook env p w =
     (Inl (ValueError (msg_bucket_region (lower (strip line)) (REGION p))),
      w\<lparr>calls := calls w @ [Shell (project_command (PROJECT_ID p)), Shell enable_apis_command,
                             Shell (ls_location_command (bucket_name u))],
        ticks := Suc (ticks w)\<rparr>)"
proof -
  let ?w = "w\<lparr>calls := calls w @ [Shell (project_command (PROJECT_ID p)), Shell enable_apis_command]\<rparr>"
  have "bucket_cell env p ?w =
     (Inl (ValueError (msg_bucket_region (lower (strip line)) (REGION p))),
      ?w\<lparr>calls := calls ?w @ [Shell (ls_location_command (bucket_name u))], ticks := Suc (ticks ?w)\<rparr>)"
    by (rule bucket_cell_region [OF assms(1-4)]) (simp_all add: assms)
  then show ?thesis
    unfolding notebook_def
    by (simp add: andthen_def project_cell_run enable_apis_cell_run)
qed


lemma not_make_bucket_commands [simp]:
  "\<not> startswith (project_command x) ''gsutil mb''"
  "\<not> startswith enable_apis_command ''gsutil mb''"
  "\<not> startswith (ls_location_command x) ''gsutil mb''"
  "\<not> startswith (describe_command x) ''gsutil mb''"
  "\<not> startswith (iam_command x y) ''gsutil mb''"
  "\<not> startswith (remove_bucket_command x) ''gsutil mb''"
  "startswith (make_bucket_command x y) ''gsutil mb''"
  by (simp_all add: project_command_def enable_apis_command_def ls_location_command_def
      describe_command_def iam_command_def remove_bucket_command_def make_bucket_command_def)

lemma notebook_makes_no_bucket:
  assumes "\<not> bucket_unset (BUCKET_URI p)"
  shows "makes_only (\<lambda>c. \<not> is_make_bucket c) (notebook env p)"
  unfolding notebook_def cell_defs Let_def
  apply (intro makes_only_intros)
  using assms
  apply (simp_all add: bucket_unset_def upload_request_def run_request_def)
  done

lemma bucket_cell_makes_bucket:
  assumes "bucket_unset (BUCKET_URI p)"
  shows "\<exists>rest. calls (snd (bucket_cell env p w)) =
           calls w @ Shell (make_bucket_command (REGION p)
                      (fresh_bucket_uri (PROJECT_ID p)
                         (strftime ''%Y%m%d%H%M%S'' (clock env (ticks w))))) # rest"
proof -
  have "bucket_cell env p w =
     andthen (create_bucket env p (strftime ''%Y%m%d%H%M%S'' (clock env (ticks w)))) (\<lambda>bucket_uri.
       andthen (shell env (describe_command (PROJECT_ID p))) (\<lambda>shell_output.
       andthen (lift (py_index shell_output (- 1))) (\<lambda>last_line.
       andthen (lift (py_index (py_split (CHR '':'') last_line) 1)) (\<lambda>field.
       andthen (shell env (iam_command (compute_service_account (py_replace (CHR 0x27) [] (strip field)))
                  (bucket_name bucket_uri))) (\<lambda>_.
       returns (bucket_uri, os_path_join bucket_uri ''temporal'',
                compute_service_account (py_replace (CHR 0x27) [] (strip field))))))))
       (w\<lparr>ticks := Suc (ticks w)\<rparr>)"
    using assms unfolding bucket_cell_def Let_def
    by (auto simp: andthen_datetime_now bucket_unset_def split: option.splits)
  then show ?thesis
    by (simp add: create_bucket_def Let_def andthen_assoc andthen_shell andthen_lift_run
        returns_run split: sum.splits)
qed

lemma strftime_bucket_format:
  "strftime ''%Y%m%d%H%M%S'' d =
     zfill 4 (str_nat (year d)) @ zfill 2 (str_nat (month d)) @ zfill 2 (str_nat (day d))
     @ zfill 2 (str_nat (hour d)) @ zfill 2 (str_nat (minute d)) @ zfill 2 (str_nat (second d))"
  by (simp add: strftime.simps directive_def)

lemma strftime_bucket_clock_reading:
  "clock_reading d \<Longrightarrow> strftime ''%Y%m%d%H%M%S'' d = YYYYMMDDHHMMSS d"
proof -
  assume "clock_reading d"
  then have "zfill 4 (str_nat (year d)) = four_digits (year d)"
    "zfill 2 (str_nat (month d)) = two_digits (month d)"
    "zfill 2 (str_nat (day d)) = two_digits (day d)"
    "zfill 2 (str_nat (hour d)) = two_digits (hour d)"
    "zfill 2 (str_nat (minute d)) = two_digits (minute d)"
    "zfill 2 (str_nat (second d)) = two_digits (second d)"
    by (simp_all add: clock_reading_def zfill_two zfill_four)
  then show ?thesis
    unfolding strftime_bucket_format YYYYMMDDHHMMSS_def by simp
qed

lemma digit_inj: "a < 10 \<Longrightarrow> b < 10 \<Longrightarrow> digit a = digit b \<Longrightarrow> a = b"
proof -
  assume a: "a < 10" and b: "b < 10" and eq: "digit a = digit b"
  have d: "distinct ''0123456789''" by simp
  have l: "length ''0123456789'' = 10" by simp
  from eq have "''0123456789'' ! a = ''0123456789'' ! b" by (simp only: digit_def)
  with d a b l show "a = b" by (simp only: nth_eq_iff_index_eq)
qed

lemma div_mod_10_eq:
  fixes x y :: nat
  assumes "x div 10 = y div 10" "x mod 10 = y mod 10"
  shows "x = y"
proof -
  have "x = x div 10 * 10 + x mod 10" by simp
  also have "\<dots> = y div 10 * 10 + y mod 10" using assms by simp
  also have "\<dots> = y" by simp
  finally show ?thesis .
qed

lemma two_digits_inj:
  assumes "a < 100" "b < 100" "two_digits a = two_digits b"
  shows "a = b"
proof -
  from assms(3) have "digit (a div 10) = digit (b div 10)" "digit (a mod 10) = digit (b mod 10)"
    by (simp_all add: two_digits_def)
  moreover from assms(1,2) have "a div 10 < 10" "b div 10 < 10"
    by auto
  ultimately have "a div 10 = b div 10" "a mod 10 = b mod 10"
    using digit_inj [of "a div 10" "b div 10"] digit_inj [of "a mod 10" "b mod 10"]
    by simp_all
  then show ?thesis by (rule div_mod_10_eq)
qed

lemma four_digits_inj:
  assumes "a < 10000" "b < 10000" "four_digits a = four_digits b"
  shows "a = b"
proof -
  from assms(3) have "digit (a div 1000) = digit (b div 1000)"
    "digit (a div 100 mod 10) = digit (b div 100 mod 10)"
    "digit (a div 10 mod 10) = digit (b div 10 mod 10)"
    "digit (a mod 10) = digit (b mod 10)"
    by (simp_all add: four_digits_def)
  moreover from assms(1,2) have "a div 1000 < 10" "b div 1000 < 10" by auto
  ultimately have "a div 1000 = b div 1000" "a div 100 mod 10 = b div 100 mod 10"
    "a div 10 mod 10 = b div 10 mod 10" "a mod 10 = b mod 10"
    using digit_inj [of "a div 1000" "b div 1000"]
      digit_inj [of "a div 100 mod 10" "b div 100 mod 10"]
      digit_inj [of "a div 10 mod 10" "b div 10 mod 10"]
      digit_inj [of "a mod 10" "b mod 10"]
    by simp_all
  note e = this
  have da: "a div 100 div 10 = a div 1000" "a div 10 div 10 = a div 100"
    using div_mult2_eq [of a 100 10] div_mult2_eq [of a 10 10] by simp_all
  have db: "b div 100 div 10 = b div 1000" "b div 10 div 10 = b div 100"
    using div_mult2_eq [of b 100 10] div_mult2_eq [of b 10 10] by simp_all
  have h: "a div 100 = b div 100"
  proof (rule div_mod_10_eq)
    show "a div 100 div 10 = b div 100 div 10" by (simp only: da db e)
    show "a div 100 mod 10 = b div 100 mod 10" by (rule e)
  qed
  have t: "a div 10 = b div 10"
  proof (rule div_mod_10_eq)
    show "a div 10 div 10 = b div 10 div 10" by (simp only: da db h)
    show "a div 10 mod 10 = b div 10 mod 10" by (rule e)
  qed
  show ?thesis
    by (rule div_mod_10_eq) (rule t, rule e)
qed

lemma length_digits [simp]: "length (two_digits n) = 2" "length (four_digits n) = 4"
  by (simp_all add: two_digits_def four_digits_def)

lemma stamp_inj:
  assumes "clock_reading d" "clock_reading d'" "YYYYMMDDHHMMSS d = YYYYMMDDHHMMSS d'"
  shows "d = d'"
proof -
  from assms(3) have "four_digits (year d) = four_digits (year d')"
    "two_digits (month d) = two_digits (month d')" "two_digits (day d) = two_digits (day d')"
    "two_digits (hour d) = two_digits (hour d')" "two_digits (minute d) = two_digits (minute d')"
    "two_digits (second d) = two_digits (second d')"
    by (simp_all add: YYYYMMDDHHMMSS_def)
  with assms(1,2) have "year d = year d'" "month d = month d'" "day d = day d'"
    "hour d = hour d'" "minute d = minute d'" "second d = second d'"
    by (auto simp: clock_reading_def intro: four_digits_inj two_digits_inj)
  then show ?thesis by simp
qed

lemma length_stamp [simp]: "length (YYYYMMDDHHMMSS d) = 14"
  by (simp add: YYYYMMDDHHMMSS_def)

lemma fresh_bucket_inj:
  assumes "clock_reading d" "clock_reading d'"
    and "''gs://'' @ project @ ''-tmp-'' @ strftime ''%Y%m%d%H%M%S'' d =
         ''gs://'' @ project' @ ''-tmp-'' @ strftime ''%Y%m%d%H%M%S'' d'"
  shows "project = project' \<and> d = d'"
proof -
  let ?A = "''-tmp-'' @ YYYYMMDDHHMMSS d" and ?B = "''-tmp-'' @ YYYYMMDDHHMMSS d'"
  from assms have eq: "project @ ?A = project' @ ?B"
    by (simp add: strftime_bucket_clock_reading)
  have len: "length ?A = length ?B" by simp
  have "(project @ ?A = project' @ ?B) = (project = project' \<and> ?A = ?B)"
    by (rule append_eq_append_conv) (rule disjI2, rule len)
  with eq have "project = project'" "YYYYMMDDHHMMSS d = YYYYMMDDHHMMSS d'" by simp_all
  with assms(1,2) show ?thesis by (auto dest: stamp_inj)
qed

lemma make_bucket_explicit:
  "make_bucket_command region (fresh_bucket_uri project now) =
     ''gsutil mb -l '' @ region @ '' '' @ ''gs://'' @ project @ ''-tmp-'' @ now"
  by (simp add: make_bucket_command_def fresh_bucket_uri_def)

lemma is_make_bucket_explicit:
  "is_make_bucket (Shell (''gsutil mb -l '' @ region @ '' '' @ ''gs://'' @ project @ ''-tmp-'' @ now))"
  by simp

lemma calls_extend:
  assumes "\<And>x. makes_only (\<lambda>c. True) (f x)"
  shows "\<exists>more. calls (snd (andthen m f w)) = calls (snd (m w)) @ more"
proof (cases "m w")
  case (Pair r w1)
  show ?thesis
  proof (cases r)
    case (Inl e)
    with Pair show ?thesis by (simp add: andthen_def)
  next
    case (Inr x)
    from assms [of x] obtain new where "calls (snd (f x w1)) = calls w1 @ new"
      unfolding makes_only_def by blast
    with Pair Inr show ?thesis by (simp add: andthen_def)
  qed
qed

lemma notebook_makes_bucket:
  assumes "bucket_unset (BUCKET_URI p)"
  shows "\<exists>rest. calls (snd (notebook env p w)) =
           calls w @ Shell (project_command (PROJECT_ID p)) # Shell enable_apis_command #
             Shell (''gsutil mb -l '' @ REGION p @ '' '' @ ''gs://'' @ PROJECT_ID p @ ''-tmp-'' @
                      strftime ''%Y%m%d%H%M%S'' (clock env (ticks w))) # rest"
proof -
  let ?w = "w\<lparr>calls := calls w @ [Shell (project_command (PROJECT_ID p)), Shell enable_apis_command]\<rparr>"
  let ?G = "\<lambda>(bucket_uri, STAGING_BUCKET, SERVICE_ACCOUNT).
     andthen (setup_cell env p STAGING_BUCKET) (\<lambda>(models, endpoints).
     andthen (finetune_cell env p STAGING_BUCKET SERVICE_ACCOUNT)
       (\<lambda>(train_job, merged_model_output_dir).
     andthen (deploy_cell env p merged_model_output_dir SERVICE_ACCOUNT) (\<lambda>(model, endpoint).
     andthen (predict_cell env p endpoint) (\<lambda>_.
     cleanup_cell env p train_job endpoints models bucket_uri))))"
  have nb: "notebook env p w = andthen (bucket_cell env p) ?G ?w"
    unfolding notebook_def
    by (simp add: andthen_def project_cell_run enable_apis_cell_run)
  have G: "\<And>x. makes_only (\<lambda>c. True) (?G x)"
    unfolding cell_defs Let_def
    by (intro makes_only_intros) simp_all
  from calls_extend [of ?G "bucket_cell env p" ?w, OF G] obtain more where
    m: "calls (snd (notebook env p w)) = calls (snd (bucket_cell env p ?w)) @ more"
    unfolding nb by blast
  from bucket_cell_makes_bucket [OF assms, of env ?w] obtain rest where
    "calls (snd (bucket_cell env p ?w)) =
       calls ?w @ Shell (make_bucket_command (REGION p)
          (fresh_bucket_uri (PROJECT_ID p) (strftime ''%Y%m%d%H%M%S'' (clock env (ticks ?w))))) # rest"
    by blast
  with m show ?thesis
    by (simp add: make_bucket_explicit)
qed

text \<open>
  C9. For a \<open>BUCKET_URI\<close> that is set (not \<open>None\<close>, not blank, not just
  \<open>gs://\<close>):
  \<^item> when it does not start with \<open>gs://\<close>, the bucket cell raises the AssertionError,
    and a run of the notebook ends with it after the two \<^verbatim>\<open>gcloud\<close> lines, with no
    other call made;
  \<^item> when it starts with \<open>gs://\<close> and the location that \<^verbatim>\<open>gsutil ls\<close> prints,
    stripped, differs from \<open>REGION\<close> with both in lower case, the bucket cell raises
    the ValueError, and a run of the notebook ends with it after the two \<^verbatim>\<open>gcloud\<close>
    lines and the \<^verbatim>\<open>gsutil ls\<close> line, with no other call made;
  \<^item> no run of the notebook makes a bucket.
  For a \<open>BUCKET_URI\<close> that is not set, the first call of the bucket cell is the shell
  line \<^verbatim>\<open>gsutil mb -l REGION gs://PROJECT_ID-tmp-<time>\<close>, which makes a bucket; in a run
  of the notebook it is the third call, after the two \<^verbatim>\<open>gcloud\<close> lines. The time is
  the clock's reading as YYYYMMDDHHMMSS, and two such names are equal only for the same
  project and the same reading of the clock, to the second.
\<close>

theorem C9_bucket_uri_validation:
  "(BUCKET_URI p = Some u \<longrightarrow> strip u \<noteq> [] \<longrightarrow> u \<noteq> ''gs://'' \<longrightarrow> \<not> startswith u ''gs://'' \<longrightarrow>
      bucket_cell env p w = (Inl (AssertionError msg_bucket_uri), w\<lparr>ticks := Suc (ticks w)\<rparr>)
      \<and> notebook env p w =
          (Inl (AssertionError msg_bucket_uri),
           w\<lparr>calls := calls w @ [Shell (project_command (PROJECT_ID p)), Shell enable_apis_command],
             ticks := Suc (ticks w)\<rparr>))
   \<and> (BUCKET_URI p = Some u \<longrightarrow> strip u \<noteq> [] \<longrightarrow> u \<noteq> ''gs://'' \<longrightarrow> startswith u ''gs://'' \<longrightarrow>
      shell_output env (calls w) (ls_location_command (bucket_name u)) = line # rest \<longrightarrow>
      lower (strip line) \<noteq> lower (REGION p) \<longrightarrow>
      bucket_cell env p w =
        (Inl (ValueError (msg_bucket_region (lower (strip line)) (REGION p))),
         w\<lparr>calls := calls w @ [Shell (ls_location_command (bucket_name u))],
           ticks := Suc (ticks w)\<rparr>))
   \<and> (BUCKET_URI p = Some u \<longrightarrow> strip u \<noteq> [] \<longrightarrow> u \<noteq> ''gs://'' \<longrightarrow> startswith u ''gs://'' \<longrightarrow>
      shell_output env
        (calls w @ [Shell (project_command (PROJECT_ID p)), Shell enable_apis_command])
        (ls_location_command (bucket_name u)) = line # rest \<longrightarrow>
      lower (strip line) \<noteq> lower (REGION p) \<longrightarrow>
      notebook env p w =
        (Inl (ValueError (msg_bucket_region (lower (strip line)) (REGION p))),
         w\<lparr>calls := calls w @ [Shell (project_command (PROJECT_ID p)), Shell enable_apis_command,
                                Shell (ls_location_command (bucket_name u))],
           ticks := Suc (ticks w)\<rparr>))
   \<and> (\<not> bucket_unset (BUCKET_URI p) \<longrightarrow>
        (\<exists>new. calls (snd (notebook env p w)) = calls w @ new
           \<and> list_all (\<lambda>c. \<not> is_make_bucket c) new))
   \<and> (bucket_unset (BUCKET_URI p) \<longrightarrow>
        (\<exists>rest. calls (snd (bucket_cell env p w)) =
           calls w @ Shell (make_bucket_command (REGION p)
                      (fresh_bucket_uri (PROJECT_ID p)
                         (strftime ''%Y%m%d%H%M%S'' (clock env (ticks w))))) # rest))
   \<and> (bucket_unset (BUCKET_URI p) \<longrightarrow>
        (\<exists>rest. calls (snd (bucket_cell env p w)) =
           calls w @ Shell (''gsutil mb -l '' @ REGION p @ '' '' @ ''gs://'' @ PROJECT_ID p @
                      ''-tmp-'' @ strftime ''%Y%m%d%H%M%S'' (clock env (ticks w))) # rest)
        \<and> is_make_bucket
             (Shell (''gsutil mb -l '' @ REGION p @ '' '' @ ''gs://'' @ PROJECT_ID p @
                      ''-tmp-'' @ strftime ''%Y%m%d%H%M%S'' (clock env (ticks w))))
        \<and> (\<exists>rest. calls (snd (notebook env p w)) =
             calls w @ Shell (project_command (PROJECT_ID p)) # Shell enable_apis_command #
               Shell (''gsutil mb -l '' @ REGION p @ '' '' @ ''gs://'' @ PROJECT_ID p @
                      ''-tmp-'' @ strftime ''%Y%m%d%H%M%S'' (clock env (ticks w))) # rest))
   \<and> (clock_reading d \<longrightarrow> strftime ''%Y%m%d%H%M%S'' d = YYYYMMDDHHMMSS d)
   \<and> (clock_reading d \<longrightarrow> clock_reading d' \<longrightarrow>
        ''gs://'' @ project @ ''-tmp-'' @ strftime ''%Y%m%d%H%M%S'' d =
        ''gs://'' @ project' @ ''-tmp-'' @ strftime ''%Y%m%d%H%M%S'' d' \<longrightarrow>
        project = project' \<and> d = d')"
proof (intro conjI impI)
  assume a: "BUCKET_URI p = Some u" "strip u \<noteq> []" "u \<noteq> ''gs://''" "\<not> startswith u ''gs://''"
  show "bucket_cell env p w = (Inl (AssertionError msg_bucket_uri), w\<lparr>ticks := Suc (ticks w)\<rparr>)"
    by (rule bucket_cell_assertion [OF a])
  show "notebook env p w =
          (Inl (AssertionError msg_bucket_uri),
           w\<lparr>calls := calls w @ [Shell (project_command (PROJECT_ID p)), Shell enable_apis_command],
             ticks := Suc (ticks w)\<rparr>)"
    by (rule notebook_bucket_assertion [OF a])
next
  assume a: "BUCKET_URI p = Some u" "strip u \<noteq> []" "u \<noteq> ''gs://''" "startswith u ''gs://''"
    "shell_output env (calls w) (ls_location_command (bucket_name u)) = line # rest"
    and d: "lower (strip line) \<noteq> lower (REGION p)"
  show "bucket_cell env p w =
        (Inl (ValueError (msg_bucket_region (lower (strip line)) (REGION p))),
         w\<lparr>calls := calls w @ [Shell (ls_location_command (bucket_name u))],
           ticks := Suc (ticks w)\<rparr>)"
    by (rule bucket_cell_region [OF a lower_differs [OF d]])
next
  assume a: "BUCKET_URI p = Some u" "strip u \<noteq> []" "u \<noteq> ''gs://''" "startswith u ''gs://''"
    "shell_output env
        (calls w @ [Shell (project_command (PROJECT_ID p)), Shell enable_apis_command])
        (ls_location_command (bucket_name u)) = line # rest"
    and d: "lower (strip line) \<noteq> lower (REGION p)"
  show "notebook env p w =
        (Inl (ValueError (msg_bucket_region (lower (strip line)) (REGION p))),
         w\<lparr>calls := calls w @ [Shell (project_command (PROJECT_ID p)), Shell enable_apis_command,
                                Shell (ls_location_command (bucket_name u))],
           ticks := Suc (ticks w)\<rparr>)"
    by (rule notebook_bucket_region [OF a lower_differs [OF d]])
next
  assume "\<not> bucket_unset (BUCKET_URI p)"
  from notebook_makes_no_bucket [OF this]
  show "\<exists>new. calls (snd (notebook env p w)) = calls w @ new
           \<and> list_all (\<lambda>c. \<not> is_make_bucket c) new"
    unfolding makes_only_def by blast
next
  assume "bucket_unset (BUCKET_URI p)"
  then show "\<exists>rest. calls (snd (bucket_cell env p w)) =
           calls w @ Shell (make_bucket_command (REGION p)
                      (fresh_bucket_uri (PROJECT_ID p)
                         (strftime ''%Y%m%d%H%M%S'' (clock env (ticks w))))) # rest"
    by (rule bucket_cell_makes_bucket)
next
  assume u: "bucket_unset (BUCKET_URI p)"
  from bucket_cell_makes_bucket [OF u, of env w]
  show "\<exists>rest. calls (snd (bucket_cell env p w)) =
           calls w @ Shell (''gsutil mb -l '' @ REGION p @ '' '' @ ''gs://'' @ PROJECT_ID p @
                      ''-tmp-'' @ strftime ''%Y%m%d%H%M%S'' (clock env (ticks w))) # rest"
    by (simp only: make_bucket_explicit)
  show "is_make_bucket
             (Shell (''gsutil mb -l '' @ REGION p @ '' '' @ ''gs://'' @ PROJECT_ID p @
                      ''-tmp-'' @ strftime ''%Y%m%d%H%M%S'' (clock env (ticks w))))"
    by (rule is_make_bucket_explicit)
  show "\<exists>rest. calls (snd (notebook env p w)) =
             calls w @ Shell (project_command (PROJECT_ID p)) # Shell enable_apis_command #
               Shell (''gsutil mb -l '' @ REGION p @ '' '' @ ''gs://'' @ PROJECT_ID p @
                      ''-tmp-'' @ strftime ''%Y%m%d%H%M%S'' (clock env (ticks w))) # rest"
    by (rule notebook_makes_bucket [OF u])
next
  assume "clock_reading d"
  then show "strftime ''%Y%m%d%H%M%S'' d = YYYYMMDDHHMMSS d"
    by (rule strftime_bucket_clock_reading)
next
  assume "clock_reading d" "clock_reading d'"
    "''gs://'' @ project @ ''-tmp-'' @ strftime ''%Y%m%d%H%M%S'' d =
     ''gs://'' @ project' @ ''-tmp-'' @ strftime ''%Y%m%d%H%M%S'' d'"
  then have r: "project = project' \<and> d = d'" by (rule fresh_bucket_inj)
  from r show "project = project'" by simp
  from r show "d = d'" by simp
qed

subsection \<open>The token\<close>

lemma setup_cell_run:
  "setup_cell env p S w =
     (case sdk_raises env (calls w) (Aiplatform_init (PROJECT_ID p) (REGION p) S) of
        Some e \<Rightarrow> (Inl e, w\<lparr>calls := calls w @ [Aiplatform_init (PROJECT_ID p) (REGION p) S]\<rparr>)
      | None \<Rightarrow>
          (if HF_TOKEN p = [] then Inl (AssertionError msg_hf_token) else Inr ([], []),
           w\<lparr>calls := calls w @ [Aiplatform_init (PROJECT_ID p) (REGION p) S]\<rparr>))"
  by (simp add: setup_cell_def Let_def andthen_sdk py_assert_def truthy_def raises_run returns_run
      split: option.splits)

lemma train_args_token:
  "List.member (train_args env p b l m t) (''--huggingface_access_token='' @ HF_TOKEN p)"
  by (simp add: train_args_def)

lemma serving_env_vars_token:
  "token \<noteq> [] \<Longrightarrow> map_of (serving_env_vars (Some token) base) ''HF_TOKEN'' = Some token"
  by (simp add: serving_env_vars_def truthy_def)

lemma notebook_carries_token:
  assumes "HF_TOKEN p \<noteq> []"
  shows "makes_only (carries_token (HF_TOKEN p)) (notebook env p)"
  unfolding notebook_def cell_defs Let_def
  apply (intro makes_only_intros)
  using assms
  apply (simp_all add: run_request_def upload_request_def train_args_token [simplified]
      serving_env_vars_token)
  done

lemma must_call_sdk: "Q c \<Longrightarrow> must_call Q (sdk env c)"
  by (auto simp: must_call_def sdk_def split: option.splits)

lemma must_call_first:
  assumes m: "must_call Q m" and f: "\<And>x. makes_only (\<lambda>c. True) (f x)"
  shows "must_call Q (andthen m f)"
  unfolding must_call_def
proof (intro allI impI)
  fix w r w'
  assume run: "andthen m f w = (Inr r, w')"
  obtain r1 w1 where mw: "m w = (r1, w1)" by (cases "m w")
  with run obtain x where x: "r1 = Inr x" "f x w1 = (Inr r, w')"
    by (cases r1) (auto simp: andthen_def)
  from m mw x(1) obtain new c where new: "calls w1 = calls w @ new" "c \<in> set new" "Q c"
    unfolding must_call_def by blast
  from f [of x] x(2) obtain new2 where "calls w' = calls w1 @ new2"
    unfolding makes_only_def by (metis snd_conv)
  with new have "calls w' = calls w @ (new @ new2)" "c \<in> set (new @ new2)" by simp_all
  with new(3) show "\<exists>new. calls w' = calls w @ new \<and> (\<exists>c \<in> set new. Q c)" by blast
qed

lemma must_call_second:
  assumes m: "makes_only (\<lambda>c. True) m" and f: "\<And>x. must_call Q (f x)"
  shows "must_call Q (andthen m f)"
  unfolding must_call_def
proof (intro allI impI)
  fix w r w'
  assume run: "andthen m f w = (Inr r, w')"
  obtain r1 w1 where mw: "m w = (r1, w1)" by (cases "m w")
  with run obtain x where x: "r1 = Inr x" "f x w1 = (Inr r, w')"
    by (cases r1) (auto simp: andthen_def)
  from m mw obtain new where new: "calls w1 = calls w @ new"
    unfolding makes_only_def by (metis snd_conv)
  from f [of x] x(2) obtain new2 c where "calls w' = calls w1 @ new2" "c \<in> set new2" "Q c"
    unfolding must_call_def by blast
  with new have "calls w' = calls w @ (new @ new2)" "c \<in> set (new @ new2)" "Q c" by simp_all
  then show "\<exists>new. calls w' = calls w @ new \<and> (\<exists>c \<in> set new. Q c)" by blast
qed

lemma must_call_case_prod:
  "(\<And>a b. must_call Q (f a b)) \<Longrightarrow> must_call Q (case x of (a, b) \<Rightarrow> f a b)"
  by (cases x) simp

lemma must_call_new_calls:
  "must_call Q m \<Longrightarrow> m w = (Inr r, w') \<Longrightarrow> \<exists>c \<in> set (new_calls w w'). Q c"
  unfolding must_call_def new_calls_def by fastforce

lemma makes_only_any_get_job_name: "makes_only (\<lambda>c. True) (get_job_name_with_datetime env prefix)"
  by (rule makes_only_get_job_name)

lemma run_request_carries:
  "is_run (run_request j (train_args env p b l m t) rc mt acc cnt sa)
   \<and> carries_token (HF_TOKEN p) (run_request j (train_args env p b l m t) rc mt acc cnt sa)"
  by (simp add: run_request_def train_args_token [simplified])

lemma upload_request_carries:
  "token \<noteq> [] \<Longrightarrow>
   is_upload (upload_request n a (serving_env_vars (Some token) base))
   \<and> carries_token token (upload_request n a (serving_env_vars (Some token) base))"
  by (simp add: upload_request_def serving_env_vars_token)

lemma must_call_finetune_cell:
  "must_call (\<lambda>c. is_run c \<and> carries_token (HF_TOKEN p) c) (finetune_cell env p S A)"
  unfolding finetune_cell_def Let_def
  apply (rule must_call_second, rule makes_only_lift)
  apply (rule must_call_second, rule makes_only_get_job_name)
  apply (rule must_call_second, rule makes_only_sdk, simp)
  apply (rule must_call_second, rule makes_only_get_job_name)
  apply (rule must_call_second, rule makes_only_get_job_name)
  apply (rule must_call_first)
   apply (rule must_call_sdk, rule run_request_carries)
  apply (rule makes_only_returns)
  done

lemma must_call_deploy_model_vllm:
  assumes "token \<noteq> []"
  shows "must_call (\<lambda>c. is_upload c \<and> carries_token token c)
     (deploy_model_vllm env (Some token) model_name model_id sa base machine accel cnt gmu mml dtype)"
  unfolding deploy_model_vllm_def Let_def
  apply (rule must_call_second, rule makes_only_sdk, simp)
  apply (rule must_call_first)
   apply (rule must_call_sdk, rule upload_request_carries [OF assms])
  apply (intro makes_only_intros)
  apply simp
  done

lemma must_call_deploy_cell:
  assumes "HF_TOKEN p \<noteq> []"
  shows "must_call (\<lambda>c. is_upload c \<and> carries_token (HF_TOKEN p) c) (deploy_cell env p M A)"
  unfolding deploy_cell_def
  by (rule must_call_second, rule makes_only_get_job_name, rule must_call_deploy_model_vllm [OF assms])

lemma makes_only_any:
  "makes_only (\<lambda>c. True) (finetune_cell env p S A)"
  "makes_only (\<lambda>c. True) (deploy_cell env p M A)"
  "makes_only (\<lambda>c. True) (predict_cell env p e)"
  "makes_only (\<lambda>c. True) (cleanup_cell env p tj es ms b)"
  "makes_only (\<lambda>c. True) (setup_cell env p S)"
  unfolding cell_defs Let_def
  by (intro makes_only_intros; simp)+

lemma must_call_notebook_run:
  "must_call (\<lambda>c. is_run c \<and> carries_token (HF_TOKEN p) c) (notebook env p)"
  unfolding notebook_def
  apply (rule must_call_second, rule makes_only_setup_prefix, simp)
  apply (rule must_call_second, rule makes_only_setup_prefix, simp)
  apply (rule must_call_second, rule makes_only_setup_prefix, simp)
  apply (intro must_call_case_prod)
  apply (rule must_call_second, rule makes_only_any)
  apply (intro must_call_case_prod)
  apply (rule must_call_first, rule must_call_finetune_cell)
  apply (intro makes_only_intros makes_only_any)
  done

lemma must_call_notebook_upload:
  assumes "HF_TOKEN p \<noteq> []"
  shows "must_call (\<lambda>c. is_upload c \<and> carries_token (HF_TOKEN p) c) (notebook env p)"
  unfolding notebook_def
  apply (rule must_call_second, rule makes_only_setup_prefix, simp)
  apply (rule must_call_second, rule makes_only_setup_prefix, simp)
  apply (rule must_call_second, rule makes_only_setup_prefix, simp)
  apply (intro must_call_case_prod)
  apply (rule must_call_second, rule makes_only_any)
  apply (intro must_call_case_prod)
  apply (rule must_call_second, rule makes_only_any)
  apply (intro must_call_case_prod)
  apply (rule must_call_first, rule must_call_deploy_cell [OF assms])
  apply (intro makes_only_intros makes_only_any)
  done

lemma finetune_cell_calls:
  assumes "finetune_preconditions (MODEL_ID p) (ACCELERATOR_TYPE p) (finetuning_precision_mode p) = Inr m"
    and "sdk_raises env (calls w)
           (CustomContainerTrainingJob
              (''gemma-lora-train'' @ strftime ''_%Y%m%d_%H%M%S'' (clock env (ticks w)))
              TRAIN_DOCKER_URI) = None"
  shows "new_calls w (snd (finetune_cell env p S A w)) =
     [CustomContainerTrainingJob
        (''gemma-lora-train'' @ strftime ''_%Y%m%d_%H%M%S'' (clock env (ticks w))) TRAIN_DOCKER_URI,
      run_request (''gemma-lora-train'' @ strftime ''_%Y%m%d_%H%M%S'' (clock env (ticks w)))
        (train_args env p (os_path_join ''google/'' (MODEL_ID p))
           (os_path_join S (''gemma-lora-adapter'' @ strftime ''_%Y%m%d_%H%M%S'' (clock env (Suc (ticks w)))))
           (os_path_join S (''gemma-merged-model'' @ strftime ''_%Y%m%d_%H%M%S'' (clock env (Suc (Suc (ticks w))))))
           [])
        1 m (ACCELERATOR_TYPE p) 1 A]"
  using assms unfolding finetune_cell_def Let_def new_calls_def
  by (simp add: andthen_get_job_name andthen_sdk returns_run split: option.splits)

lemma deploy_model_vllm_calls:
  assumes "sdk_raises env (calls w) (Endpoint_create (model_name @ ''-endpoint'')) = None"
  shows "\<exists>args base' rest.
     new_calls w (snd (deploy_model_vllm env tok model_name model_id sa base machine accel cnt gmu
       mml dtype w)) =
       Endpoint_create (model_name @ ''-endpoint'') #
       upload_request model_name args (serving_env_vars tok base') # rest"
  using assms unfolding deploy_model_vllm_def Let_def new_calls_def
  by (auto simp: andthen_sdk returns_run split: option.splits)

text \<open>
  C10. With an empty \<open>HF_TOKEN\<close>, the setup cell raises the AssertionError once
  \<^verbatim>\<open>aiplatform.init\<close> has returned, and a run of the notebook ends in an error without
  any call that creates or submits a training job or that creates an endpoint, uploads
  or deploys a model. With a non-empty \<open>HF_TOKEN\<close> the assertion passes, and:
  \<^item> in a run of the notebook every \<^verbatim>\<open>train_job.run\<close> has the argument
    \<^verbatim>\<open>--huggingface_access_token=<token>\<close> and every \<^verbatim>\<open>Model.upload\<close> has the
    environment variable \<open>HF_TOKEN\<close> set to the token;
  \<^item> the Finetune cell, once its assertions pass and the job object is created, calls
    \<^verbatim>\<open>train_job.run\<close> with that argument;
  \<^item> \<^verbatim>\<open>deploy_model_vllm\<close>, once the endpoint is created, calls \<^verbatim>\<open>Model.upload\<close>
    with that environment variable;
  \<^item> a run of the notebook that ends without an error has made both calls.
\<close>

theorem C10_hf_token_required:
  "(HF_TOKEN p = [] \<longrightarrow>
      (sdk_raises env (calls w) (Aiplatform_init (PROJECT_ID p) (REGION p) S) = None \<longrightarrow>
         fst (setup_cell env p S w) = Inl (AssertionError msg_hf_token))
      \<and> (\<exists>e w' new. notebook env p w = (Inl e, w') \<and> calls w' = calls w @ new
            \<and> list_all (\<lambda>c. \<not> is_training_call c \<and> \<not> is_deployment_call c) new))
   \<and> (HF_TOKEN p \<noteq> [] \<longrightarrow>
      (sdk_raises env (calls w) (Aiplatform_init (PROJECT_ID p) (REGION p) S) = None \<longrightarrow>
         fst (setup_cell env p S w) = Inr ([], []))
      \<and> (\<exists>new. calls (snd (notebook env p w)) = calls w @ new
            \<and> list_all (carries_token (HF_TOKEN p)) new)
      \<and> (finetune_preconditions (MODEL_ID p) (ACCELERATOR_TYPE p) (finetuning_precision_mode p)
            = Inr m \<longrightarrow>
          sdk_raises env (calls w)
            (CustomContainerTrainingJob
               (''gemma-lora-train'' @ strftime ''_%Y%m%d_%H%M%S'' (clock env (ticks w)))
               TRAIN_DOCKER_URI) = None \<longrightarrow>
          (\<exists>c \<in> set (new_calls w (snd (finetune_cell env p S A w))).
              is_run c \<and> carries_token (HF_TOKEN p) c))
      \<and> (sdk_raises env (calls w) (Endpoint_create (model_name @ ''-endpoint'')) = None \<longrightarrow>
          (\<exists>c \<in> set (new_calls w (snd (deploy_model_vllm env (Some (HF_TOKEN p)) model_name
                         model_id sa base machine accel cnt gmu mml dtype w))).
              is_upload c \<and> carries_token (HF_TOKEN p) c))
      \<and> (fst (notebook env p w) = Inr () \<longrightarrow>
          (\<exists>c \<in> set (new_calls w (snd (notebook env p w))).
              is_run c \<and> carries_token (HF_TOKEN p) c)
          \<and> (\<exists>c \<in> set (new_calls w (snd (notebook env p w))).
              is_upload c \<and> carries_token (HF_TOKEN p) c)))"
proof (intro conjI impI)
  assume empty: "HF_TOKEN p = []"
  show "fst (setup_cell env p S w) = Inl (AssertionError msg_hf_token)"
    if "sdk_raises env (calls w) (Aiplatform_init (PROJECT_ID p) (REGION p) S) = None"
    using that empty by (simp add: setup_cell_run)
  have "fails_making_only (\<lambda>c. \<not> is_training_call c \<and> \<not> is_deployment_call c) (notebook env p)"
    by (rule notebook_fails_at_setup, simp, rule setup_cell_fails [OF empty], simp)
  then show "\<exists>e w' new. notebook env p w = (Inl e, w') \<and> calls w' = calls w @ new
            \<and> list_all (\<lambda>c. \<not> is_training_call c \<and> \<not> is_deployment_call c) new"
    unfolding fails_making_only_def by blast
next
  assume token: "HF_TOKEN p \<noteq> []"
  show "fst (setup_cell env p S w) = Inr ([], [])"
    if "sdk_raises env (calls w) (Aiplatform_init (PROJECT_ID p) (REGION p) S) = None"
    using that token by (simp add: setup_cell_run)
  from notebook_carries_token [OF token]
  show "\<exists>new. calls (snd (notebook env p w)) = calls w @ new
            \<and> list_all (carries_token (HF_TOKEN p)) new"
    unfolding makes_only_def by blast
  show "\<exists>c \<in> set (new_calls w (snd (finetune_cell env p S A w))).
              is_run c \<and> carries_token (HF_TOKEN p) c"
    if "finetune_preconditions (MODEL_ID p) (ACCELERATOR_TYPE p) (finetuning_precision_mode p)
            = Inr m"
      "sdk_raises env (calls w)
            (CustomContainerTrainingJob
               (''gemma-lora-train'' @ strftime ''_%Y%m%d_%H%M%S'' (clock env (ticks w)))
               TRAIN_DOCKER_URI) = None"
    unfolding finetune_cell_calls [OF that]
    using run_request_carries by (simp del: carries_token.simps is_run.simps)
  show "\<exists>c \<in> set (new_calls w (snd (deploy_model_vllm env (Some (HF_TOKEN p)) model_name
                         model_id sa base machine accel cnt gmu mml dtype w))).
              is_upload c \<and> carries_token (HF_TOKEN p) c"
    if "sdk_raises env (calls w) (Endpoint_create (model_name @ ''-endpoint'')) = None"
  proof -
    from deploy_model_vllm_calls [OF that] obtain args base' rest where
      "new_calls w (snd (deploy_model_vllm env (Some (HF_TOKEN p)) model_name model_id sa base
         machine accel cnt gmu mml dtype w)) =
       Endpoint_create (model_name @ ''-endpoint'') #
       upload_request model_name args (serving_env_vars (Some (HF_TOKEN p)) base') # rest"
      by blast
    with upload_request_carries [OF token] show ?thesis
      by (simp del: carries_token.simps is_upload.simps)
  qed
  assume ok: "fst (notebook env p w) = Inr ()"
  then have run: "notebook env p w = (Inr (), snd (notebook env p w))"
    by (metis prod.collapse)
  from must_call_new_calls [OF must_call_notebook_run run]
  show "\<exists>c \<in> set (new_calls w (snd (notebook env p w))).
              is_run c \<and> carries_token (HF_TOKEN p) c" .
  from must_call_new_calls [OF must_call_notebook_upload [OF token] run]
  show "\<exists>c \<in> set (new_calls w (snd (notebook env p w))).
              is_upload c \<and> carries_token (HF_TOKEN p) c" .
qed

subsection \<open>The clean-up\<close>

text \<open>
  The setup cell can only return two empty dictionaries, and these are what the
  clean-up iterates. So on every input, whatever the platform does, the notebook calls
  neither \<^verbatim>\<open>endpoint.delete\<close> nor \<^verbatim>\<open>model.delete\<close>
  (\<open>notebook_never_deletes\<close>).
\<close>

lemma makes_only_andthen_value:
  assumes m: "makes_only Q m"
    and v: "\<And>w x w'. m w = (Inr x, w') \<Longrightarrow> x = v"
    and f: "makes_only Q (f v)"
  shows "makes_only Q (andthen m f)"
  unfolding makes_only_def
proof
  fix w
  from m obtain new where new: "calls (snd (m w)) = calls w @ new" "list_all Q new"
    unfolding makes_only_def by blast
  show "\<exists>new. calls (snd (andthen m f w)) = calls w @ new \<and> list_all Q new"
  proof (cases "m w")
    case (Pair r w1)
    show ?thesis
    proof (cases r)
      case (Inl e)
      with Pair new show ?thesis by (auto simp: andthen_def)
    next
      case (Inr x)
      with Pair v have "x = v" by blast
      from f obtain new2 where
        "calls (snd (f v w1)) = calls w1 @ new2" "list_all Q new2"
        unfolding makes_only_def by blast
      with Pair Inr new \<open>x = v\<close> have
        "calls (snd (andthen m f w)) = calls w @ (new @ new2)" "list_all Q (new @ new2)"
        by (auto simp: andthen_def)
      then show ?thesis by blast
    qed
  qed
qed

lemma setup_cell_value: "setup_cell env p S w = (Inr x, w') \<Longrightarrow> x = ([], [])"
  by (auto simp: setup_cell_run split: option.splits if_splits)

lemma cleanup_cell_empty:
  "cleanup_cell env p train_job [] [] b =
     andthen (sdk env (TrainJob_delete train_job)) (\<lambda>_.
       if delete_bucket p
       then andthen (shell env (remove_bucket_command b)) (\<lambda>_. returns ())
       else returns ())"
  by (simp add: cleanup_cell_def)

lemma notebook_never_deletes:
  "makes_only (\<lambda>c. \<not> is_endpoint_delete c \<and> \<not> is_model_delete c) (notebook env p)"
  unfolding notebook_def
  apply (rule makes_only_andthen, rule makes_only_setup_prefix, simp)
  apply (rule makes_only_andthen, rule makes_only_setup_prefix, simp)
  apply (rule makes_only_andthen, rule makes_only_setup_prefix, simp)
  apply (intro makes_only_case_prod)
  apply (rule makes_only_andthen_value [where v = "([], [])"])
    apply (rule makes_only_setup_cell, simp)
   apply (erule setup_cell_value)
  apply (simp only: prod.case cleanup_cell_empty)
  unfolding finetune_cell_def deploy_cell_def deploy_model_vllm_def predict_cell_def Let_def
  apply (intro makes_only_intros)
  apply (simp_all add: run_request_def upload_request_def)
  done

lemma notebook_sample_run:
  "fst (notebook sample_env sample_params world0) = Inr ()"
  "platform_jobs (snd (notebook sample_env sample_params world0)) = []"
  "platform_endpoints (snd (notebook sample_env sample_params world0))
     = [''gemma-vllm-serve_20240517_093004-endpoint'']"
  "platform_models (snd (notebook sample_env sample_params world0))
     = [''gemma-vllm-serve_20240517_093004'']"
  "platform_deployed (snd (notebook sample_env sample_params world0))
     = [(''gemma-vllm-serve_20240517_093004'', ''gemma-vllm-serve_20240517_093004-endpoint'')]"
  "filter (\<lambda>c. is_endpoint_delete c \<or> is_model_delete c)
     (calls (snd (notebook sample_env sample_params world0))) = []"
  "filter is_training_call (calls (snd (notebook sample_env sample_params world0))) \<noteq> []"
  "filter is_upload (calls (snd (notebook sample_env sample_params world0))) \<noteq> []"
  unfolding notebook_def
  by (simp_all add: andthen_def project_cell_run enable_apis_cell_run bucket_cell_sample
      setup_cell_sample finetune_cell_sample deploy_cell_sample predict_cell_sample
      cleanup_cell_sample world0_def sample_name_4 run_request_def upload_request_def)

text \<open>
  C3. The sample run: the form as shipped with a token filled in, on a platform where
  every call works. The run ends without an error. The training job is gone from the
  platform, but the endpoint that \<^verbatim>\<open>deploy_model_vllm\<close> created and the model it
  uploaded are still there, the model still deployed on the endpoint: the run calls
  neither \<^verbatim>\<open>endpoint.delete\<close> nor \<^verbatim>\<open>model.delete\<close>.
\<close>

theorem C3_sample_run_leaves_endpoint_and_model:
  "fst (notebook sample_env sample_params world0) = Inr ()
   \<and> platform_jobs (snd (notebook sample_env sample_params world0)) = []
   \<and> platform_endpoints (snd (notebook sample_env sample_params world0))
       = [''gemma-vllm-serve_20240517_093004-endpoint'']
   \<and> platform_models (snd (notebook sample_env sample_params world0))
       = [''gemma-vllm-serve_20240517_093004'']
   \<and> platform_deployed (snd (notebook sample_env sample_params world0))
       = [(''gemma-vllm-serve_20240517_093004'', ''gemma-vllm-serve_20240517_093004-endpoint'')]
   \<and> filter (\<lambda>c. is_endpoint_delete c \<or> is_model_delete c)
         (calls (snd (notebook sample_env sample_params world0))) = []"
  by (simp only: notebook_sample_run simp_thms)

subsection \<open>The theorems at work on the sample run\<close>

lemma sample_stamp_0: "YYYYMMDD_HHMMSS (sample_clock 0) = ''20240517_093000''"
  by (simp add: YYYYMMDD_HHMMSS_def sample_clock_def two_digits_def four_digits_def digit_def)

lemma sample_clock_reading: "clock_reading (clock sample_env n)"
  by (simp add: sample_env_fields sample_clock_def clock_reading_def)

theorem C5_job_names_witness:
  "clock_reading (clock sample_env (ticks world0))
   \<and> get_job_name_with_datetime sample_env ''gemma-lora-train'' world0 =
       (Inr ''gemma-lora-train_20240517_093000'', world0\<lparr>ticks := Suc (ticks world0)\<rparr>)
   \<and> (\<exists>w'. finetune_cell sample_env sample_params ''gs://b/temporal'' ''sa'' world0 =
          (Inr (sample_name ''gemma-lora-train'' 0,
                os_path_join ''gs://b/temporal'' (sample_name ''gemma-merged-model'' 2)), w'))
   \<and> sample_name ''gemma-lora-train'' 0 = ''gemma-lora-train_20240517_093000''"
proof -
  let ?J = "sample_name ''gemma-lora-train'' 0"
  let ?M = "os_path_join ''gs://b/temporal'' (sample_name ''gemma-merged-model'' 2)"
  obtain w' where run:
    "finetune_cell sample_env sample_params ''gs://b/temporal'' ''sa'' world0 = (Inr (?J, ?M), w')"
    by (simp add: finetune_cell_sample world0_def numeral_2_eq_2)
  from C5_job_names [of sample_env world0 "''gemma-lora-train''" sample_params "''gs://b/temporal''"
      "''sa''" ?J ?M w'] run sample_clock_reading
  have a: "get_job_name_with_datetime sample_env ''gemma-lora-train'' world0 =
        (Inr (''gemma-lora-train'' @ ''_'' @ YYYYMMDD_HHMMSS (clock sample_env (ticks world0))),
         world0\<lparr>ticks := Suc (ticks world0)\<rparr>)"
    and b: "?J = ''gemma-lora-train'' @ ''_'' @ YYYYMMDD_HHMMSS (clock sample_env (ticks world0))"
    by blast+
  have s: "YYYYMMDD_HHMMSS (clock sample_env (ticks world0)) = ''20240517_093000''"
    by (simp add: sample_env_fields world0_def sample_stamp_0)
  from a b run show ?thesis
    by (simp add: s sample_clock_reading)
qed



lemma preconditions_7b_v100:
  "finetune_preconditions ''gemma-7b'' ''NVIDIA_TESLA_V100'' ''4bit'' = Inl (AssertionError msg_7b_v100)"
  by (simp add: finetune_preconditions_def check_7b_def py_assert_def)

theorem C6_assertions_before_submission_witness:
  "finetune_preconditions (MODEL_ID (notebook_defaults\<lparr>MODEL_ID := ''gemma-7b''\<rparr>))
      (ACCELERATOR_TYPE (notebook_defaults\<lparr>MODEL_ID := ''gemma-7b''\<rparr>))
      (finetuning_precision_mode (notebook_defaults\<lparr>MODEL_ID := ''gemma-7b''\<rparr>))
     = Inl (AssertionError msg_7b_v100)
   \<and> finetune_cell sample_env (notebook_defaults\<lparr>MODEL_ID := ''gemma-7b''\<rparr>) ''gs://b/temporal''
       ''sa'' world0 = (Inl (AssertionError msg_7b_v100), world0)
   \<and> (\<exists>e' w' new. notebook sample_env (notebook_defaults\<lparr>MODEL_ID := ''gemma-7b''\<rparr>) world0
          = (Inl e', w') \<and> calls w' = calls world0 @ new
          \<and> list_all (\<lambda>c. \<not> is_training_call c) new)
   \<and> finetune_preconditions (MODEL_ID sample_params) (ACCELERATOR_TYPE sample_params)
       (finetuning_precision_mode sample_params) = Inr ''n1-standard-8''
   \<and> (\<exists>job rest. calls (snd (finetune_cell sample_env sample_params ''gs://b/temporal'' ''sa'' world0))
          = calls world0 @ CustomContainerTrainingJob job TRAIN_DOCKER_URI # rest)"
proof -
  let ?p = "notebook_defaults\<lparr>MODEL_ID := ''gemma-7b''\<rparr>"
  have h: "finetune_preconditions (MODEL_ID ?p) (ACCELERATOR_TYPE ?p) (finetuning_precision_mode ?p)
      = Inl (AssertionError msg_7b_v100)"
    by (simp add: notebook_defaults_def preconditions_7b_v100)
  have h2: "finetune_preconditions (MODEL_ID sample_params) (ACCELERATOR_TYPE sample_params)
       (finetuning_precision_mode sample_params) = Inr ''n1-standard-8''"
    by (simp add: sample_params_fields sample_preconditions)
  from C6_assertions_before_submission [of ?p "AssertionError msg_7b_v100" sample_env "''gs://b/temporal''" "''sa''" world0] h
    C6_assertions_before_submission [of sample_params _ sample_env "''gs://b/temporal''" "''sa''" world0 "''n1-standard-8''"] h2
  show ?thesis by blast
qed


theorem C7_single_predict_request_witness:
  "ENDPOINT_NAME sample_params = []
   \<and> new_calls world0 (snd (predict_cell sample_env sample_params ''e'' world0))
       = [Endpoint_predict ''e'' (predict_instances sample_params)]
   \<and> ENDPOINT_NAME (sample_params\<lparr>ENDPOINT_NAME := ''1234567890123456789''\<rparr>) \<noteq> []
   \<and> sdk_raises sample_env (calls world0)
        (Endpoint_get (aip_endpoint_name (sample_params\<lparr>ENDPOINT_NAME := ''1234567890123456789''\<rparr>)))
       = None
   \<and> new_calls world0 (snd (predict_cell sample_env
         (sample_params\<lparr>ENDPOINT_NAME := ''1234567890123456789''\<rparr>) ''e'' world0))
       = [Endpoint_get (aip_endpoint_name (sample_params\<lparr>ENDPOINT_NAME := ''1234567890123456789''\<rparr>)),
          Endpoint_predict (aip_endpoint_name (sample_params\<lparr>ENDPOINT_NAME := ''1234567890123456789''\<rparr>))
            (predict_instances (sample_params\<lparr>ENDPOINT_NAME := ''1234567890123456789''\<rparr>))]"
  using C7_single_predict_request [where p = sample_params and env = sample_env and w = world0 and endpoint = "''e''"]
    C7_single_predict_request [where p = "sample_params\<lparr>ENDPOINT_NAME := ''1234567890123456789''\<rparr>"
      and env = sample_env and w = world0 and endpoint = "''e''"]
  by (simp add: sample_params_fields sample_env_fields)


lemma upload_fails_env_fields:
  "sdk_raises upload_fails_env h c = (if is_upload c then Some (PlatformError ''upload refused'') else None)"
  by (simp add: upload_fails_env_def sample_env_def)

theorem C8_endpoint_before_upload_witness:
  "sdk_raises upload_fails_env (calls world0) (Endpoint_create (''m'' @ ''-endpoint'')) = None
   \<and> fst (deploy_model_vllm upload_fails_env (Some ''hf_read_token'') ''m'' ''gs://b/merged'' ''sa''
            None ''g2-standard-12'' ''NVIDIA_L4'' 1 (9 / 10) 2048 ''auto'' world0)
       = Inl (PlatformError ''upload refused'')
   \<and> platform_endpoints (snd (deploy_model_vllm upload_fails_env (Some ''hf_read_token'') ''m''
            ''gs://b/merged'' ''sa'' None ''g2-standard-12'' ''NVIDIA_L4'' 1 (9 / 10) 2048 ''auto''
            world0))
       = platform_endpoints world0 @ [''m'' @ ''-endpoint'']"
proof -
  have f: "fst (deploy_model_vllm upload_fails_env (Some ''hf_read_token'') ''m'' ''gs://b/merged'' ''sa''
            None ''g2-standard-12'' ''NVIDIA_L4'' 1 (9 / 10) 2048 ''auto'' world0)
       = Inl (PlatformError ''upload refused'')"
    unfolding deploy_model_vllm_def Let_def
    by (simp add: andthen_sdk upload_fails_env_fields)
  from C8_endpoint_before_upload [where env = upload_fails_env and w = world0 and model_name = "''m''"
      and tok = "Some ''hf_read_token''" and model_id = "''gs://b/merged''" and sa = "''sa''"
      and base = None and machine = "''g2-standard-12''" and accel = "''NVIDIA_L4''" and cnt = 1
      and gmu = "9 / 10" and mml = 2048 and dtype = "''auto''"] f
  show ?thesis
    by (simp add: upload_fails_env_fields)
qed

theorem C10_hf_token_required_witness:
  "HF_TOKEN notebook_defaults = []
   \<and> sdk_raises sample_env (calls world0)
        (Aiplatform_init (PROJECT_ID notebook_defaults) (REGION notebook_defaults) ''gs://b/temporal'')
       = None
   \<and> fst (setup_cell sample_env notebook_defaults ''gs://b/temporal'' world0)
       = Inl (AssertionError msg_hf_token)
   \<and> (\<exists>e w' new. notebook sample_env notebook_defaults world0 = (Inl e, w')
          \<and> calls w' = calls world0 @ new
          \<and> list_all (\<lambda>c. \<not> is_training_call c \<and> \<not> is_deployment_call c) new)
   \<and> HF_TOKEN sample_params \<noteq> []
   \<and> fst (setup_cell sample_env sample_params ''gs://b/temporal'' world0) = Inr ([], [])
   \<and> (\<exists>new. calls (snd (notebook sample_env sample_params world0)) = calls world0 @ new
          \<and> list_all (carries_token (HF_TOKEN sample_params)) new)
   \<and> filter is_training_call (calls (snd (notebook sample_env sample_params world0))) \<noteq> []
   \<and> filter is_upload (calls (snd (notebook sample_env sample_params world0))) \<noteq> []
   \<and> finetune_preconditions (MODEL_ID sample_params) (ACCELERATOR_TYPE sample_params)
        (finetuning_precision_mode sample_params) = Inr ''n1-standard-8''
   \<and> (\<exists>c \<in> set (new_calls world0
          (snd (finetune_cell sample_env sample_params ''gs://b/temporal'' ''sa'' world0))).
          is_run c \<and> carries_token ''hf_read_token'' c)
   \<and> (\<exists>c \<in> set (new_calls world0
          (snd (deploy_model_vllm sample_env (Some ''hf_read_token'') ''m'' ''gs://b/merged'' ''sa''
             None ''g2-standard-12'' ''NVIDIA_L4'' 1 (9 / 10) 2048 ''auto'' world0))).
          is_upload c \<and> carries_token ''hf_read_token'' c)
   \<and> fst (notebook sample_env sample_params world0) = Inr ()
   \<and> (\<exists>c \<in> set (new_calls world0 (snd (notebook sample_env sample_params world0))).
          is_run c \<and> carries_token ''hf_read_token'' c)
   \<and> (\<exists>c \<in> set (new_calls world0 (snd (notebook sample_env sample_params world0))).
          is_upload c \<and> carries_token ''hf_read_token'' c)"
  using C10_hf_token_required [where p = notebook_defaults and env = sample_env and w = world0
      and S = "''gs://b/temporal''"]
    C10_hf_token_required [where p = sample_params and env = sample_env and w = world0
      and S = "''gs://b/temporal''" and A = "''sa''" and m = "''n1-standard-8''"
      and model_name = "''m''" and model_id = "''gs://b/merged''" and sa = "''sa''"
      and base = None and machine = "''g2-standard-12''" and accel = "''NVIDIA_L4''" and cnt = 1
      and gmu = "9 / 10" and mml = 2048 and dtype = "''auto''"]
    notebook_sample_run(1,7,8)
  by (simp add: sample_params_fields sample_env_fields notebook_defaults_def sample_preconditions
      del: carries_token.simps is_run.simps is_upload.simps)

lemma strip_samples:
  "strip ''my-bucket'' = ''my-bucket''"
  "strip ''gs://my-bucket/runs'' = ''gs://my-bucket/runs''"
  "strip ''  US-CENTRAL1'' = ''US-CENTRAL1''"
  by (simp_all add: strip_def isspace_def)

lemma lower_samples:
  "lower ''US-CENTRAL1'' = ''us-central1''"
  "lower ''europe-west4'' = ''europe-west4''"
  by code_simp+


lemma sample_bucket_stamp: "YYYYMMDDHHMMSS (sample_clock 0) = ''20240517093000''"
  by (simp add: YYYYMMDDHHMMSS_def sample_clock_def two_digits_def four_digits_def digit_def)

lemma sample_clock_differs: "sample_clock 0 \<noteq> sample_clock 1"
  by (simp add: sample_clock_def)

theorem C9_bucket_uri_validation_witness:
  "BUCKET_URI (notebook_defaults\<lparr>BUCKET_URI := Some ''my-bucket''\<rparr>) = Some ''my-bucket''
   \<and> strip ''my-bucket'' \<noteq> [] \<and> ''my-bucket'' \<noteq> ''gs://'' \<and> \<not> startswith ''my-bucket'' ''gs://''
   \<and> fst (notebook sample_env (notebook_defaults\<lparr>BUCKET_URI := Some ''my-bucket''\<rparr>) world0)
       = Inl (AssertionError msg_bucket_uri)
   \<and> BUCKET_URI (notebook_defaults\<lparr>BUCKET_URI := Some ''gs://my-bucket/runs''\<rparr>)
       = Some ''gs://my-bucket/runs''
   \<and> strip ''gs://my-bucket/runs'' \<noteq> [] \<and> ''gs://my-bucket/runs'' \<noteq> ''gs://''
   \<and> startswith ''gs://my-bucket/runs'' ''gs://''
   \<and> shell_output other_region_env
        (calls world0 @
          [Shell (project_command (PROJECT_ID (notebook_defaults\<lparr>BUCKET_URI := Some ''gs://my-bucket/runs''\<rparr>))),
           Shell enable_apis_command])
        (ls_location_command (bucket_name ''gs://my-bucket/runs'')) = ''  US-CENTRAL1'' # []
   \<and> lower (strip ''  US-CENTRAL1'')
       \<noteq> lower (REGION (notebook_defaults\<lparr>BUCKET_URI := Some ''gs://my-bucket/runs''\<rparr>))
   \<and> fst (notebook other_region_env (notebook_defaults\<lparr>BUCKET_URI := Some ''gs://my-bucket/runs''\<rparr>)
         world0)
       = Inl (ValueError (msg_bucket_region ''us-central1'' ''europe-west4''))
   \<and> \<not> bucket_unset (BUCKET_URI (notebook_defaults\<lparr>BUCKET_URI := Some ''my-bucket''\<rparr>))
   \<and> (\<exists>new. calls (snd (notebook sample_env (notebook_defaults\<lparr>BUCKET_URI := Some ''my-bucket''\<rparr>)
                 world0)) = calls world0 @ new
          \<and> list_all (\<lambda>c. \<not> is_make_bucket c) new)
   \<and> bucket_unset (BUCKET_URI notebook_defaults)
   \<and> (\<exists>rest. calls (snd (bucket_cell sample_env notebook_defaults world0)) =
          calls world0 @ Shell (make_bucket_command (REGION notebook_defaults)
             (fresh_bucket_uri (PROJECT_ID notebook_defaults)
                (strftime ''%Y%m%d%H%M%S'' (clock sample_env (ticks world0))))) # rest)
   \<and> (\<exists>rest. calls (snd (bucket_cell sample_env notebook_defaults world0)) =
          Shell ''gsutil mb -l europe-west4 gs://crafty-progress-421108-tmp-20240517093000'' # rest)
   \<and> is_make_bucket
         (Shell ''gsutil mb -l europe-west4 gs://crafty-progress-421108-tmp-20240517093000'')
   \<and> (\<exists>rest. calls (snd (notebook sample_env notebook_defaults world0)) =
          Shell (project_command ''crafty-progress-421108'') # Shell enable_apis_command #
          Shell ''gsutil mb -l europe-west4 gs://crafty-progress-421108-tmp-20240517093000'' # rest)
   \<and> clock_reading (sample_clock 0) \<and> clock_reading (sample_clock 1)
   \<and> strftime ''%Y%m%d%H%M%S'' (sample_clock 0) = ''20240517093000''
   \<and> ''gs://'' @ ''crafty-progress-421108'' @ ''-tmp-'' @ strftime ''%Y%m%d%H%M%S'' (sample_clock 0)
       \<noteq> ''gs://'' @ ''crafty-progress-421108'' @ ''-tmp-'' @ strftime ''%Y%m%d%H%M%S'' (sample_clock 1)"
proof -
  let ?P1 = "notebook_defaults\<lparr>BUCKET_URI := Some ''my-bucket''\<rparr>"
  let ?P2 = "notebook_defaults\<lparr>BUCKET_URI := Some ''gs://my-bucket/runs''\<rparr>"
  let ?mb = "Shell ''gsutil mb -l europe-west4 gs://crafty-progress-421108-tmp-20240517093000''"
  have fields: "PROJECT_ID notebook_defaults = ''crafty-progress-421108''"
    "REGION notebook_defaults = ''europe-west4''" "BUCKET_URI notebook_defaults = Some ''gs://''"
    by (simp_all add: notebook_defaults_def)
  have h1: "BUCKET_URI ?P1 = Some ''my-bucket''" by simp
  have h2: "strip ''my-bucket'' \<noteq> []" by (simp add: strip_samples)
  have h3: "''my-bucket'' \<noteq> ''gs://''" by simp
  have h4: "\<not> startswith ''my-bucket'' ''gs://''" by simp
  have h6: "BUCKET_URI ?P2 = Some ''gs://my-bucket/runs''" by simp
  have h7: "strip ''gs://my-bucket/runs'' \<noteq> []" by (simp add: strip_samples)
  have h8: "''gs://my-bucket/runs'' \<noteq> ''gs://''" by simp
  have h9: "startswith ''gs://my-bucket/runs'' ''gs://''" by simp
  have h10: "shell_output other_region_env
        (calls world0 @ [Shell (project_command (PROJECT_ID ?P2)), Shell enable_apis_command])
        (ls_location_command (bucket_name ''gs://my-bucket/runs'')) = ''  US-CENTRAL1'' # []"
    by (simp add: other_region_env_def)
  have h11: "lower (strip ''  US-CENTRAL1'') \<noteq> lower (REGION ?P2)"
    by (simp add: strip_samples lower_samples fields)
  have h13: "\<not> bucket_unset (BUCKET_URI ?P1)"
    by (simp add: bucket_unset_def strip_samples)
  have h15: "bucket_unset (BUCKET_URI notebook_defaults)"
    by (simp add: bucket_unset_def fields)
  have h20: "clock_reading (sample_clock 0)" and h21: "clock_reading (sample_clock 1)"
    by (simp_all add: sample_clock_def clock_reading_def)
  note a = C9_bucket_uri_validation [where p = ?P1 and u = "''my-bucket''" and env = sample_env and w = world0]
  note b = C9_bucket_uri_validation [where p = ?P2 and u = "''gs://my-bucket/runs''" and env = other_region_env
      and w = world0 and line = "''  US-CENTRAL1''" and rest = "[]"]
  note u = C9_bucket_uri_validation [where p = notebook_defaults and env = sample_env and w = world0
      and d = "sample_clock 0" and d' = "sample_clock 1"
      and project = "''crafty-progress-421108''" and project' = "''crafty-progress-421108''"]
  have h5: "fst (notebook sample_env ?P1 world0) = Inl (AssertionError msg_bucket_uri)"
    using a [THEN conjunct1] h1 h2 h3 h4 by simp
  have "notebook other_region_env ?P2 world0 =
        (Inl (ValueError (msg_bucket_region (lower (strip ''  US-CENTRAL1'')) (REGION ?P2))),
         world0\<lparr>calls := calls world0 @ [Shell (project_command (PROJECT_ID ?P2)),
                                Shell enable_apis_command,
                                Shell (ls_location_command (bucket_name ''gs://my-bucket/runs''))],
           ticks := Suc (ticks world0)\<rparr>)"
    using b [THEN conjunct2, THEN conjunct2, THEN conjunct1] h6 h7 h8 h9 h10 h11 by blast
  then have h12: "fst (notebook other_region_env ?P2 world0)
       = Inl (ValueError (msg_bucket_region ''us-central1'' ''europe-west4''))"
    by (simp add: strip_samples lower_samples fields)
  have h14: "\<exists>new. calls (snd (notebook sample_env ?P1 world0)) = calls world0 @ new
          \<and> list_all (\<lambda>c. \<not> is_make_bucket c) new"
    using a [THEN conjunct2, THEN conjunct2, THEN conjunct2, THEN conjunct1] h13 by blast
  have h16: "\<exists>rest. calls (snd (bucket_cell sample_env notebook_defaults world0)) =
          calls world0 @ Shell (make_bucket_command (REGION notebook_defaults)
             (fresh_bucket_uri (PROJECT_ID notebook_defaults)
                (strftime ''%Y%m%d%H%M%S'' (clock sample_env (ticks world0))))) # rest"
    using u [THEN conjunct2, THEN conjunct2, THEN conjunct2, THEN conjunct2, THEN conjunct1] h15
    by blast
  have h22: "strftime ''%Y%m%d%H%M%S'' (sample_clock 0) = ''20240517093000''"
    using u [THEN conjunct2, THEN conjunct2, THEN conjunct2, THEN conjunct2, THEN conjunct2,
        THEN conjunct2, THEN conjunct1] h20
    by (simp add: sample_bucket_stamp)
  have name: "''gsutil mb -l '' @ REGION notebook_defaults @ '' '' @ ''gs://'' @
      PROJECT_ID notebook_defaults @ ''-tmp-'' @
      strftime ''%Y%m%d%H%M%S'' (clock sample_env (ticks world0))
      = ''gsutil mb -l europe-west4 gs://crafty-progress-421108-tmp-20240517093000''"
    by (simp add: fields sample_env_def world0_def h22)
  note six = u [THEN conjunct2, THEN conjunct2, THEN conjunct2, THEN conjunct2, THEN conjunct2,
      THEN conjunct1, rule_format, OF h15, unfolded name]
  have h17: "\<exists>rest. calls (snd (bucket_cell sample_env notebook_defaults world0)) = ?mb # rest"
    using six [THEN conjunct1] by (simp add: world0_def)
  have h18: "is_make_bucket ?mb"
    using six [THEN conjunct2, THEN conjunct1] .
  have h19: "\<exists>rest. calls (snd (notebook sample_env notebook_defaults world0)) =
          Shell (project_command ''crafty-progress-421108'') # Shell enable_apis_command #
          ?mb # rest"
    using six [THEN conjunct2, THEN conjunct2] by (simp add: world0_def fields)
  have "''gs://'' @ ''crafty-progress-421108'' @ ''-tmp-'' @ strftime ''%Y%m%d%H%M%S'' (sample_clock 0)
       = ''gs://'' @ ''crafty-progress-421108'' @ ''-tmp-'' @ strftime ''%Y%m%d%H%M%S'' (sample_clock 1)
     \<Longrightarrow> sample_clock 0 = sample_clock 1"
    using u [THEN conjunct2, THEN conjunct2, THEN conjunct2, THEN conjunct2, THEN conjunct2,
        THEN conjunct2, THEN conjunct2] h20 h21 by blast
  with sample_clock_differs have h23:
    "''gs://'' @ ''crafty-progress-421108'' @ ''-tmp-'' @ strftime ''%Y%m%d%H%M%S'' (sample_clock 0)
       \<noteq> ''gs://'' @ ''crafty-progress-421108'' @ ''-tmp-'' @ strftime ''%Y%m%d%H%M%S'' (sample_clock 1)"
    by blast
  show ?thesis
    by (intro conjI; fact)
qed

end
